theory Spec2Isabelle
  imports Main "HOL-Library.AList"
begin

section \<open>Data model of the evaluation engine (engine.ts)\<close>

text \<open>
  The engine keeps three process-wide JavaScript \<^verbatim>\<open>Map\<close>s keyed by namespace
  (\<^verbatim>\<open>namespaces\<close>, \<^verbatim>\<open>valueExports\<close>, \<^verbatim>\<open>valueImports\<close>). A JavaScript
  \<^verbatim>\<open>Map\<close> iterates in insertion order and \<^verbatim>\<open>set\<close> on a present key keeps the
  key's position, which is what \<open>AList.update\<close> does on an association list; \<^verbatim>\<open>get\<close>
  is \<open>map_of\<close>.
\<close>

type_synonym namespace = string

text \<open>Keys of exports and imports: \<^verbatim>\<open>string | symbol\<close>, the two symbols being
  \<^verbatim>\<open>symbols.defaultExport\<close> and \<^verbatim>\<open>symbols.namespaceExport\<close>.\<close>

datatype key = Named string | DefaultExport | NamespaceExport

datatype Export = Export (exported: key) (local: string)

datatype Import =
  Import (importedNamespace: namespace) (imported: key) (importLocal: string) (isBuiltIn: bool)

text \<open>Kinds of \<^verbatim>\<open>Error\<close> objects that the engine and the host raise.\<close>

datatype errorKind =
  ResolveError | FileError | ParseError | SyntaxError | TypeError | ReferenceError
  | HostError | MissingLocalError | MissingExportError

text \<open>The functions that \<^verbatim>\<open>evaluate\<close> puts into the context of the rewritten code.\<close>

datatype helper =
  RegisterValue | RegisterValueExport | RegisterValueImport | RegisterDefaultValueExport
  | DynamicImport

text \<open>
  JavaScript values, as far as the engine handles them. Objects are plain data objects
  (own properties in insertion order) and are modelled as values. \<open>HostVal\<close> is an opaque
  value owned by the host (a built-in module, a global such as \<^verbatim>\<open>console\<close>, a member of
  \<^verbatim>\<open>Object.prototype\<close>), named by a string. The three CommonJS stubs are values that
  remember the \<^verbatim>\<open>evaluate\<close> call that made them: its namespace, for \<^verbatim>\<open>module\<close> the
  index of its target object, for \<^verbatim>\<open>require\<close> the \<^verbatim>\<open>evalImports\<close> flag.
  \<open>ArgumentsVal\<close> is the \<^verbatim>\<open>arguments\<close> object of the function that wraps the code;
  the function is called without arguments.
\<close>

datatype val =
  Undefined
  | Num int
  | Str string
  | Obj "(string \<times> val) list"
  | ExportVal Export
  | ErrorVal errorKind
  | HostVal string
  | PromiseVal val
  | ExportsStub namespace
  | ModuleStub namespace nat
  | RequireStub namespace bool
  | HelperVal helper
  | ArgumentsVal

record store =
  namespaces :: "(namespace \<times> (string \<times> val) list) list"
  valueExports :: "(namespace \<times> (key \<times> Export) list) list"
  valueImports :: "(namespace \<times> (string \<times> Import) list) list"
  moduleObjs :: "(string \<times> val) list list"
  uuids :: nat
  stderr :: "val list"

definition emptyStore :: store where
  "emptyStore = \<lparr>namespaces = [], valueExports = [], valueImports = [],
     moduleObjs = [], uuids = 0, stderr = []\<rparr>"

text \<open>\<^verbatim>\<open>m.get(k) || new Map()\<close>\<close>

definition getOrEmpty :: "('k \<times> 'v list) list \<Rightarrow> 'k \<Rightarrow> 'v list" where
  "getOrEmpty m k = (case map_of m k of None \<Rightarrow> [] | Some e \<Rightarrow> e)"

text \<open>\<^verbatim>\<open>uuid()\<close>: a fresh identifier on every call. It is no JavaScript identifier.\<close>

definition uuidOf :: "nat \<Rightarrow> string" where
  "uuidOf n = ''uuid-'' @ replicate n (CHR ''i'')"

subsection \<open>The registration functions\<close>

definition registerValue :: "store \<Rightarrow> namespace \<Rightarrow> string \<Rightarrow> val \<Rightarrow> store \<times> val" where
  "registerValue st ns k v =
     (let values = getOrEmpty (namespaces st) ns
      in (st\<lparr>namespaces := AList.update ns (AList.update k v values) (namespaces st)\<rparr>, v))"

definition registerValueExport :: "store \<Rightarrow> namespace \<Rightarrow> string \<Rightarrow> key \<Rightarrow> store \<times> key" where
  "registerValueExport st ns l e =
     (let nsExports = getOrEmpty (valueExports st) ns
      in (st\<lparr>valueExports :=
               AList.update ns (AList.update e (Export e l) nsExports) (valueExports st)\<rparr>, e))"

text \<open>The result is \<^verbatim>\<open>symbols.defaultExport.toString()\<close>.\<close>

definition registerDefaultValueExport :: "store \<Rightarrow> namespace \<Rightarrow> string \<Rightarrow> store \<times> val" where
  "registerDefaultValueExport st ns l =
     (let exports = getOrEmpty (valueExports st) ns
      in (st\<lparr>valueExports :=
               AList.update ns (AList.update DefaultExport (Export DefaultExport l) exports)
                 (valueExports st)\<rparr>,
          Str ''Symbol([[defaultExport]])''))"


section \<open>Fragments, the host and results\<close>

text \<open>
  The fragments that are modelled: import declarations first, then top-level statements
  out of expression statements, single-declarator \<^verbatim>\<open>const\<close> declarations,
  \<^verbatim>\<open>throw\<close> and \<^verbatim>\<open>export { x, y as y1 }\<close>; expressions out of literals,
  identifiers, \<^verbatim>\<open>+\<close>, property reads \<^verbatim>\<open>e.p\<close>, calls and property
  assignments \<^verbatim>\<open>e.p = e'\<close>. \<open>SReturn\<close> is what the rewriter produces; the parser
  refuses it in a fragment.
\<close>

datatype expr =
  ELit val
  | EVar string
  | EAdd expr expr
  | EMember expr string
  | ECall expr "expr list"
  | EAssignMember expr string expr

datatype stmt =
  SExpr expr
  | SConst string expr
  | SThrow expr
  | SReturn expr
  | SExportSpecs "(string \<times> string) list"

text \<open>\<open>ImportSpecifier l i\<close> is \<^verbatim>\<open>import { i as l }\<close>.\<close>

datatype importSpecifier =
  ImportNamespaceSpecifier string
  | ImportDefaultSpecifier string
  | ImportSpecifier string string

datatype importDecl = ImportDeclaration (source: string) (specifiers: "importSpecifier list")

datatype program = Program (importDecls: "importDecl list") (body: "stmt list")

text \<open>
  What the engine asks of the host: \<^verbatim>\<open>createRequire(from).resolve(spec)\<close> (\<open>None\<close>
  when it throws), \<^verbatim>\<open>createRequire(from)(id)\<close> (\<open>None\<close> when loading throws),
  \<^verbatim>\<open>fs.readFileSync\<close> followed by the parser (\<open>None\<close> when the file cannot be read),
  the own properties of \<^verbatim>\<open>global\<close>, and \<^verbatim>\<open>path.dirname\<close>.
\<close>

record host =
  resolve :: "string \<Rightarrow> string \<Rightarrow> string option"
  hostRequire :: "string \<Rightarrow> string \<Rightarrow> val option"
  readFile :: "string \<Rightarrow> program option"
  globals :: "(string \<times> val) list"
  dirname :: "string \<Rightarrow> string"

text \<open>\<^verbatim>\<open>path.isAbsolute\<close> on POSIX.\<close>

definition isAbsolute :: "string \<Rightarrow> bool" where
  "isAbsolute p = (case p of [] \<Rightarrow> False | c # _ \<Rightarrow> c = CHR ''/'')"

text \<open>
  A computation of the engine returns a value, throws a JavaScript value, or leaves the
  modelled part of JavaScript (\<open>Unmodelled\<close>; no theorem below concludes anything from
  it). Computations that may recurse through \<^verbatim>\<open>evaluate\<close> take fuel and return
  \<open>None\<close> when it runs out.
\<close>

datatype 'a res = Ok 'a | Thrown val | Unmodelled

definition bind ::
  "(store \<times> 'a res) option \<Rightarrow> (store \<Rightarrow> 'a \<Rightarrow> (store \<times> 'b res) option)
     \<Rightarrow> (store \<times> 'b res) option" where
  "bind m f =
     (case m of
        None \<Rightarrow> None
      | Some (st, r) \<Rightarrow>
          (case r of
             Ok v \<Rightarrow> f st v
           | Thrown e \<Rightarrow> Some (st, Thrown e)
           | Unmodelled \<Rightarrow> Some (st, Unmodelled)))"

definition truthy :: "val \<Rightarrow> bool" where
  "truthy v = (case v of Undefined \<Rightarrow> False | Num n \<Rightarrow> n \<noteq> 0 | Str s \<Rightarrow> s \<noteq> [] | _ \<Rightarrow> True)"

subsection \<open>Plain objects\<close>

text \<open>
  \<^verbatim>\<open>{}\<close> and the result of \<^verbatim>\<open>_.fromPairs\<close> inherit from \<^verbatim>\<open>Object.prototype\<close>,
  and both \<^verbatim>\<open>with\<close> and \<^verbatim>\<open>in\<close> look at inherited properties too.
\<close>

definition objectPrototypeKeys :: "string list" where
  "objectPrototypeKeys =
     [''constructor'', ''__defineGetter__'', ''__defineSetter__'', ''hasOwnProperty'',
      ''__lookupGetter__'', ''__lookupSetter__'', ''isPrototypeOf'', ''propertyIsEnumerable'',
      ''toString'', ''valueOf'', ''__proto__'', ''toLocaleString'']"

definition hasProperty :: "(string \<times> val) list \<Rightarrow> string \<Rightarrow> bool" where
  "hasProperty props k = (k \<in> set (map fst props) \<or> k \<in> set objectPrototypeKeys)"

definition getProperty :: "(string \<times> val) list \<Rightarrow> string \<Rightarrow> val" where
  "getProperty props k =
     (case map_of props k of
        Some v \<Rightarrow> v
      | None \<Rightarrow>
          if k \<in> set objectPrototypeKeys then HostVal (''Object.prototype.'' @ k)
          else Undefined)"

text \<open>
  Building an object by assigning the pairs in turn. Assigning to the key
  \<^verbatim>\<open>__proto__\<close> sets the prototype instead of a property: \<open>None\<close>, not modelled.
\<close>

definition fromPairs :: "(string \<times> val) list \<Rightarrow> (string \<times> val) list option" where
  "fromPairs ps =
     (if ''__proto__'' \<in> set (map fst ps) then None
      else Some (fold (\<lambda>(k, v) acc. AList.update k v acc) ps []))"


section \<open>The engine's functions that do not recurse\<close>

text \<open>
  \<^verbatim>\<open>normalizeImportPath\<close>: the host's resolution; a failure is logged on standard
  error and thrown again.
\<close>

definition normalizeImportPath ::
  "host \<Rightarrow> store \<Rightarrow> namespace \<Rightarrow> string \<Rightarrow> store \<times> string res" where
  "normalizeImportPath h st importingNamespace importedNs =
     (case resolve h importingNamespace importedNs of
        None \<Rightarrow> (st\<lparr>stderr := stderr st @ [ErrorVal ResolveError]\<rparr>, Thrown (ErrorVal ResolveError))
      | Some p \<Rightarrow> (st, Ok p))"

definition registerValueImport ::
  "host \<Rightarrow> store \<Rightarrow> namespace \<Rightarrow> string \<Rightarrow> key \<Rightarrow> string \<Rightarrow> bool \<Rightarrow> store \<times> string res" where
  "registerValueImport h st importingNamespace l i importedNs builtIn =
     (case normalizeImportPath h st importingNamespace importedNs of
        (st1, Ok absoluteImportedNamespace) \<Rightarrow>
          (let imps = getOrEmpty (valueImports st1) importingNamespace
           in (st1\<lparr>valueImports :=
                     AList.update importingNamespace
                       (AList.update l (Import absoluteImportedNamespace i l builtIn) imps)
                       (valueImports st1)\<rparr>,
               Ok l))
      | (st1, Thrown e) \<Rightarrow> (st1, Thrown e)
      | (st1, Unmodelled) \<Rightarrow> (st1, Unmodelled))"

text \<open>The property name under which \<^verbatim>\<open>constructNamespaceExport\<close> puts an export.\<close>

definition exportKeyName :: "key \<Rightarrow> string option" where
  "exportKeyName k =
     (case k of Named s \<Rightarrow> Some s | DefaultExport \<Rightarrow> Some ''default'' | NamespaceExport \<Rightarrow> None)"

definition constructNamespaceExport :: "store \<Rightarrow> namespace \<Rightarrow> val res" where
  "constructNamespaceExport st ns =
     (let values = getOrEmpty (namespaces st) ns;
          exports = getOrEmpty (valueExports st) ns;
          vOf = (\<lambda>e. case map_of values (local e) of None \<Rightarrow> Undefined | Some v \<Rightarrow> v)
      in case those (map (\<lambda>e. map_option (\<lambda>k. (k, vOf e)) (exportKeyName (exported e)))
                       (map snd exports)) of
           None \<Rightarrow> Unmodelled
         | Some pairs \<Rightarrow>
             (case fromPairs pairs of None \<Rightarrow> Unmodelled | Some ps \<Rightarrow> Ok (Obj ps)))"

subsection \<open>The CommonJS stubs\<close>

text \<open>The \<^verbatim>\<open>get\<close> trap of \<^verbatim>\<open>exportsStub\<close>.\<close>

definition exportsStubGet :: "store \<Rightarrow> namespace \<Rightarrow> string \<Rightarrow> val" where
  "exportsStubGet st ns prop =
     (let exportsOfNs = map snd (getOrEmpty (valueExports st) ns)
      in case find (\<lambda>e. local e = prop) exportsOfNs of
           None \<Rightarrow> Undefined
         | Some exportValue \<Rightarrow> ExportVal exportValue)"

definition uuid :: "store \<Rightarrow> store \<times> string" where
  "uuid st = (st\<lparr>uuids := Suc (uuids st)\<rparr>, uuidOf (uuids st))"

text \<open>
  The \<^verbatim>\<open>set\<close> trap of \<^verbatim>\<open>exportsStub\<close>. With a default export whose value is an
  object the trap mutates that object, which every holder of the object sees: not
  modelled. On a truthy number or string the assignment throws, the engine being strict
  code.
\<close>

definition exportsStubSet :: "store \<Rightarrow> namespace \<Rightarrow> string \<Rightarrow> val \<Rightarrow> store \<times> val res" where
  "exportsStubSet st ns prop v =
     (let localKeyOfDefaultExport =
            (case map_of (getOrEmpty (valueExports st) ns) DefaultExport of
               None \<Rightarrow> [] | Some e \<Rightarrow> local e)
      in if localKeyOfDefaultExport \<noteq> [] then
           (let defaultExport =
                  (case map_of (getOrEmpty (namespaces st) ns) localKeyOfDefaultExport of
                     None \<Rightarrow> Undefined | Some d \<Rightarrow> d)
            in if truthy defaultExport then
                 (case defaultExport of
                    Num n \<Rightarrow> (st, Thrown (ErrorVal TypeError))
                  | Str s \<Rightarrow> (st, Thrown (ErrorVal TypeError))
                  | _ \<Rightarrow> (st, Unmodelled))
               else (st, Ok v))
         else
           (let (st1, id) = uuid st;
                (st2, r) = registerValue st1 ns id (Obj [(prop, v)]);
                (st3, r') = registerDefaultValueExport st2 ns id
            in (st3, Ok v)))"

text \<open>
  The \<^verbatim>\<open>set\<close> trap of \<^verbatim>\<open>moduleStub\<close>; \<open>i\<close> is the index of the proxy's target
  object, which starts as \<^verbatim>\<open>{ exports: exportsStub }\<close>.
\<close>

definition moduleStubSet :: "store \<Rightarrow> namespace \<Rightarrow> nat \<Rightarrow> string \<Rightarrow> val \<Rightarrow> store \<times> val res" where
  "moduleStubSet st ns i prop v =
     (if prop = ''__proto__'' \<or> \<not> i < length (moduleObjs st) then (st, Unmodelled)
      else
        (let st0 = st\<lparr>moduleObjs := (moduleObjs st)[i := AList.update prop v (moduleObjs st ! i)]\<rparr>
         in if prop = ''exports'' then
              (let (st1, id) = uuid st0;
                   (st2, r) = registerValue st1 ns id v;
                   (st3, r') = registerDefaultValueExport st2 ns id
               in (st3, Ok v))
            else (st0, Ok v)))"

subsection \<open>Property reads, property writes, addition\<close>

definition getMember :: "store \<Rightarrow> val \<Rightarrow> string \<Rightarrow> val res" where
  "getMember st v p =
     (case v of
        Undefined \<Rightarrow> Thrown (ErrorVal TypeError)
      | Obj props \<Rightarrow> Ok (getProperty props p)
      | HostVal s \<Rightarrow> Ok (HostVal (s @ ''.'' @ p))
      | ExportsStub ns \<Rightarrow> Ok (exportsStubGet st ns p)
      | ModuleStub ns i \<Rightarrow>
          (if i < length (moduleObjs st) then Ok (getProperty (moduleObjs st ! i) p)
           else Unmodelled)
      | _ \<Rightarrow> Unmodelled)"

definition setMember :: "store \<Rightarrow> val \<Rightarrow> string \<Rightarrow> val \<Rightarrow> store \<times> val res" where
  "setMember st target p v =
     (case target of
        ModuleStub ns i \<Rightarrow> moduleStubSet st ns i p v
      | ExportsStub ns \<Rightarrow> exportsStubSet st ns p v
      | Num n \<Rightarrow> (st, Thrown (ErrorVal TypeError))
      | Str s \<Rightarrow> (st, Thrown (ErrorVal TypeError))
      | _ \<Rightarrow> (st, Unmodelled))"

text \<open>Numbers are the integers that a double holds exactly.\<close>

definition safeInt :: "int \<Rightarrow> bool" where
  "safeInt n = (- (2 ^ 53) < n \<and> n < 2 ^ 53)"

definition addVals :: "val \<Rightarrow> val \<Rightarrow> val res" where
  "addVals a b =
     (case (a, b) of
        (Num x, Num y) \<Rightarrow> if safeInt x \<and> safeInt y \<and> safeInt (x + y) then Ok (Num (x + y)) else Unmodelled
      | (Str x, Str y) \<Rightarrow> Ok (Str (x @ y))
      | _ \<Rightarrow> Unmodelled)"


section \<open>Scope synthesis\<close>

text \<open>
  The value that \<^verbatim>\<open>evaluate\<close> stores in \<^verbatim>\<open>nsImportsForScope\<close> for one import of
  the namespace (the body of the loop over \<^verbatim>\<open>nsImports.entries()\<close>).
\<close>

definition importValue :: "host \<Rightarrow> store \<Rightarrow> namespace \<Rightarrow> Import \<Rightarrow> val res" where
  "importValue h st ns imp =
     (if \<not> isBuiltIn imp \<and> imported imp = NamespaceExport then
        constructNamespaceExport st (importedNamespace imp)
      else if isBuiltIn imp then
        (case hostRequire h ns (importedNamespace imp) of
           None \<Rightarrow> Thrown (ErrorVal HostError)
         | Some module \<Rightarrow>
             (case imported imp of
                DefaultExport \<Rightarrow> Ok module
              | NamespaceExport \<Rightarrow> Ok module
              | Named n \<Rightarrow> getMember st module n))
      else
        (let nsExports = map_of (valueExports st) (importedNamespace imp);
             exported = (case nsExports of None \<Rightarrow> None | Some es \<Rightarrow> map_of es (imported imp))
         in case exported of
              None \<Rightarrow> Ok Undefined
            | Some e \<Rightarrow>
                (case map_of (namespaces st) (importedNamespace imp) of
                   None \<Rightarrow> Ok Undefined
                 | Some values \<Rightarrow>
                     (case map_of values (local e) of None \<Rightarrow> Ok Undefined | Some v \<Rightarrow> Ok v))))"

text \<open>The loop itself: \<^verbatim>\<open>nsImportsForScope[local] = ...\<close> for every entry, in order.\<close>

fun buildImports ::
  "host \<Rightarrow> store \<Rightarrow> namespace \<Rightarrow> (string \<times> Import) list \<Rightarrow> (string \<times> val) list
     \<Rightarrow> (string \<times> val) list res" where
  "buildImports h st ns [] acc = Ok acc"
| "buildImports h st ns ((l, imp) # rest) acc =
     (case importValue h st ns imp of
        Ok v \<Rightarrow>
          (if l = ''__proto__'' then Unmodelled
           else buildImports h st ns rest (AList.update l v acc))
      | Thrown e \<Rightarrow> Thrown e
      | Unmodelled \<Rightarrow> Unmodelled)"

text \<open>
  What one call of \<^verbatim>\<open>evaluate\<close> fixes before it runs the rewritten code: the two
  objects of the \<^verbatim>\<open>with\<close> statements, the index of the target of \<^verbatim>\<open>moduleStub\<close>,
  and the names that the code declares itself.
\<close>

record env =
  envNamespace :: namespace
  envEvalImports :: bool
  nsImportsForScope :: "(string \<times> val) list"
  nsForScope :: "(string \<times> val) list"
  envModule :: nat
  envDeclared :: "string list"

definition cjsStubs :: "host \<Rightarrow> env \<Rightarrow> (string \<times> val) list" where
  "cjsStubs h env =
     [(''module'', ModuleStub (envNamespace env) (envModule env)),
      (''exports'', ExportsStub (envNamespace env)),
      (''require'', RequireStub (envNamespace env) (envEvalImports env)),
      (''__filename'', Str (envNamespace env)),
      (''__dirname'', Str (dirname h (envNamespace env)))]"

text \<open>
  The object given to \<^verbatim>\<open>vm.createContext\<close>: in a spread, a later property replaces
  an earlier one of the same name.
\<close>

definition contextExtras :: "env \<Rightarrow> (string \<times> val) list" where
  "contextExtras env =
     [(''nsImportsForScope'', Obj (nsImportsForScope env)),
      (''nsForScope'', Obj (nsForScope env)),
      (''registerValue'', HelperVal RegisterValue),
      (''registerValueExport'', HelperVal RegisterValueExport),
      (''registerValueImport'', HelperVal RegisterValueImport),
      (''registerDefaultValueExport'', HelperVal RegisterDefaultValueExport),
      (''dynamicImport'', HelperVal DynamicImport)]"

definition contextLookup :: "host \<Rightarrow> env \<Rightarrow> string \<Rightarrow> val option" where
  "contextLookup h env x =
     (case map_of (contextExtras env) x of
        Some v \<Rightarrow> Some v
      | None \<Rightarrow>
          (case map_of (cjsStubs h env) x of
             Some v \<Rightarrow> Some v
           | None \<Rightarrow> map_of (globals h) x))"

text \<open>
  A free identifier of the code that runs inside
  \<^verbatim>\<open>with (nsImportsForScope) { with (nsForScope) { (function () { ... })() } }\<close>:
  the code's own \<^verbatim>\<open>const\<close>s first (a \<^verbatim>\<open>const\<close> read before its declaration has
  run throws), then the scope of the wrapping function, which binds \<^verbatim>\<open>arguments\<close> and
  nothing else, then the inner \<^verbatim>\<open>with\<close>, then the outer one, then the context.
\<close>

definition lookupVar :: "host \<Rightarrow> env \<Rightarrow> (string \<times> val) list \<Rightarrow> string \<Rightarrow> val res" where
  "lookupVar h env locals x =
     (if x \<in> set (envDeclared env) then
        (case map_of locals x of
           Some v \<Rightarrow> Ok v
         | None \<Rightarrow> Thrown (ErrorVal ReferenceError))
      else if x = ''arguments'' then Ok ArgumentsVal
      else if hasProperty (nsForScope env) x then Ok (getProperty (nsForScope env) x)
      else if hasProperty (nsImportsForScope env) x then Ok (getProperty (nsImportsForScope env) x)
      else
        (case contextLookup h env x of
           Some v \<Rightarrow> Ok v
         | None \<Rightarrow> Thrown (ErrorVal ReferenceError)))"

section \<open>The source rewriter\<close>

definition specLocal :: "importSpecifier \<Rightarrow> string" where
  "specLocal sp =
     (case sp of
        ImportNamespaceSpecifier l \<Rightarrow> l
      | ImportDefaultSpecifier l \<Rightarrow> l
      | ImportSpecifier l i \<Rightarrow> l)"

definition declaredNames :: "stmt list \<Rightarrow> string list" where
  "declaredNames ss = concat (map (\<lambda>s. case s of SConst x e \<Rightarrow> [x] | _ \<Rightarrow> []) ss)"

definition isReturn :: "stmt \<Rightarrow> bool" where
  "isReturn s = (case s of SReturn e \<Rightarrow> True | _ \<Rightarrow> False)"

definition isExportSpecs :: "stmt \<Rightarrow> bool" where
  "isExportSpecs s = (case s of SExportSpecs specs \<Rightarrow> True | _ \<Rightarrow> False)"

definition exportedNames :: "stmt list \<Rightarrow> string list" where
  "exportedNames ss =
     concat (map (\<lambda>s. case s of SExportSpecs specs \<Rightarrow> map snd specs | _ \<Rightarrow> []) ss)"

text \<open>
  The names that the import declarations and the \<^verbatim>\<open>const\<close>s of a fragment bind.
\<close>

definition boundNames :: "program \<Rightarrow> string list" where
  "boundNames prog =
     concat (map (\<lambda>d. map specLocal (specifiers d)) (importDecls prog)) @ declaredNames (body prog)"

text \<open>
  What the parser and the scope analysis of the rewriter refuse: a top-level
  \<^verbatim>\<open>return\<close>, a name declared twice by the imports and \<^verbatim>\<open>const\<close>s of the
  fragment, a binding of \<^verbatim>\<open>eval\<close> or \<^verbatim>\<open>arguments\<close>, and a name exported twice.
  The fragment is parsed as a module, which is strict code. Names stand for identifiers
  of strict code, so that no reserved word is a name; \<^verbatim>\<open>eval\<close> and
  \<^verbatim>\<open>arguments\<close> are identifiers, which strict code may read and may not bind.
\<close>

definition parses :: "program \<Rightarrow> bool" where
  "parses prog =
     (list_all (\<lambda>s. \<not> isReturn s) (body prog) \<and>
      distinct (boundNames prog) \<and>
      ''eval'' \<notin> set (boundNames prog) \<and>
      ''arguments'' \<notin> set (boundNames prog) \<and>
      distinct (exportedNames (body prog)))"

definition registerValueExpr :: "namespace \<Rightarrow> string \<Rightarrow> stmt" where
  "registerValueExpr fileName x =
     SExpr (ECall (EVar ''registerValue'') [ELit (Str fileName), ELit (Str x), EVar x])"

definition registerExportExpr :: "namespace \<Rightarrow> string \<times> string \<Rightarrow> stmt" where
  "registerExportExpr fileName sp =
     SExpr (ECall (EVar ''registerValueExport'')
              [ELit (Str fileName), ELit (Str (fst sp)), ELit (Str (snd sp))])"

text \<open>
  The \<^verbatim>\<open>Program\<close> visitor puts a call of \<^verbatim>\<open>registerValue\<close> after every
  declaration; the \<^verbatim>\<open>ExportNamedDeclaration\<close> visitor puts, for every specifier in
  turn, a call of \<^verbatim>\<open>registerValueExport\<close> right after the export statement (so the
  calls end up in reverse order) and removes the statement; without specifiers the
  statement stays.
\<close>

definition rewriteStmt :: "namespace \<Rightarrow> stmt \<Rightarrow> stmt list" where
  "rewriteStmt fileName s =
     (case s of
        SConst x e \<Rightarrow> [SConst x e, registerValueExpr fileName x]
      | SExportSpecs specs \<Rightarrow>
          (if specs = [] then [s] else rev (map (registerExportExpr fileName) specs))
      | _ \<Rightarrow> [s])"

text \<open>
  The \<^verbatim>\<open>ExpressionStatement\<close> visitor sees the inserted statements too: the
  expression statement that ends the program, written by the user or inserted, becomes a
  \<^verbatim>\<open>return\<close>.
\<close>

definition trailingReturn :: "stmt list \<Rightarrow> stmt list" where
  "trailingReturn ss =
     (if ss = [] then []
      else (case last ss of SExpr e \<Rightarrow> butlast ss @ [SReturn e] | _ \<Rightarrow> ss))"

definition rewrite :: "namespace \<Rightarrow> stmt list \<Rightarrow> stmt list" where
  "rewrite fileName ss = trailingReturn (concat (map (rewriteStmt fileName) ss))"

section \<open>The evaluator\<close>

text \<open>
  \<^verbatim>\<open>evaluate\<close> calls itself through the import declarations of the fragment, through
  \<^verbatim>\<open>require\<close> and through \<^verbatim>\<open>dynamicImport\<close>, and nothing bounds the depth. The
  functions below take the recursive call as the parameter \<open>ev\<close>; \<open>evaluate\<close> at the
  end closes the recursion with fuel, one unit for every nested call of
  \<^verbatim>\<open>evaluate\<close>. The \<^verbatim>\<open>debug\<close> flag only prints and is left out.
\<close>

lemma bind_cong [fundef_cong]:
  "m = m' \<Longrightarrow> (\<And>st v. m' = Some (st, Ok v) \<Longrightarrow> f st v = f' st v) \<Longrightarrow> bind m f = bind m' f'"
  by (auto simp: bind_def split: option.splits res.splits)

text \<open>The \<^verbatim>\<open>imported\<close> key and the calls of \<^verbatim>\<open>registerValueImport\<close> that
  \<^verbatim>\<open>ImportDeclaration.enter\<close> makes for the specifiers of one declaration.\<close>

definition specImported :: "importSpecifier \<Rightarrow> key" where
  "specImported sp =
     (case sp of
        ImportNamespaceSpecifier l \<Rightarrow> NamespaceExport
      | ImportDefaultSpecifier l \<Rightarrow> DefaultExport
      | ImportSpecifier l i \<Rightarrow> Named i)"

fun registerSpecifiers ::
  "host \<Rightarrow> store \<Rightarrow> namespace \<Rightarrow> string \<Rightarrow> bool \<Rightarrow> importSpecifier list \<Rightarrow> store \<times> unit res" where
  "registerSpecifiers h st fileName src builtIn [] = (st, Ok ())"
| "registerSpecifiers h st fileName src builtIn (sp # sps) =
     (case registerValueImport h st fileName (specLocal sp) (specImported sp) src builtIn of
        (st1, Ok l) \<Rightarrow> registerSpecifiers h st1 fileName src builtIn sps
      | (st1, Thrown e) \<Rightarrow> (st1, Thrown e)
      | (st1, Unmodelled) \<Rightarrow> (st1, Unmodelled))"

text \<open>\<^verbatim>\<open>defaultExport && namespaces.get(ns)?.get(defaultExport.local)\<close>, the last
  two lines of \<^verbatim>\<open>requireCustom\<close>.\<close>

definition defaultExportValue :: "store \<Rightarrow> namespace \<Rightarrow> val" where
  "defaultExportValue st ns =
     (case map_of (getOrEmpty (valueExports st) ns) DefaultExport of
        None \<Rightarrow> Undefined
      | Some defaultExport \<Rightarrow>
          (case map_of (getOrEmpty (namespaces st) ns) (local defaultExport) of
             None \<Rightarrow> Undefined
           | Some v \<Rightarrow> v))"

text \<open>The arguments of a call: a missing one is \<^verbatim>\<open>undefined\<close>; the engine's
  functions are modelled for the strings that their types ask for.\<close>

definition arg :: "val list \<Rightarrow> nat \<Rightarrow> val" where
  "arg args i = (if i < length args then args ! i else Undefined)"

definition argStr :: "val list \<Rightarrow> nat \<Rightarrow> string option" where
  "argStr args i = (case arg args i of Str s \<Rightarrow> Some s | _ \<Rightarrow> None)"

definition mapRes :: "('a \<Rightarrow> 'b) \<Rightarrow> 'a res \<Rightarrow> 'b res" where
  "mapRes f r = (case r of Ok v \<Rightarrow> Ok (f v) | Thrown e \<Rightarrow> Thrown e | Unmodelled \<Rightarrow> Unmodelled)"

text \<open>What \<^verbatim>\<open>evaluate\<close> is to the functions that call it: a function of the store,
  the namespace, the code and \<^verbatim>\<open>evalImports\<close>.\<close>

type_synonym evaluator = "store \<Rightarrow> namespace \<Rightarrow> program \<Rightarrow> bool \<Rightarrow> (store \<times> val res) option"

text \<open>\<^verbatim>\<open>evaluate(ns, fs.readFileSync(ns, ...), evalImports, debug)\<close>\<close>

definition evaluateFile :: "evaluator \<Rightarrow> host \<Rightarrow> store \<Rightarrow> namespace \<Rightarrow> bool \<Rightarrow> (store \<times> val res) option" where
  "evaluateFile ev h st ns evalImports =
     (case readFile h ns of
        None \<Rightarrow> Some (st, Thrown (ErrorVal FileError))
      | Some code \<Rightarrow> ev st ns code evalImports)"

text \<open>\<^verbatim>\<open>requireCustom\<close>. The test for a built-in is on \<open>importedNs\<close>, the specifier
  as the caller wrote it.\<close>

definition requireCustom ::
  "evaluator \<Rightarrow> host \<Rightarrow> store \<Rightarrow> namespace \<Rightarrow> string \<Rightarrow> bool \<Rightarrow> (store \<times> val res) option" where
  "requireCustom ev h st importingNamespace importedNs evalImports =
     bind (Some (normalizeImportPath h st importingNamespace importedNs)) (\<lambda>st1 requiredNsNormalized.
       let builtIn = \<not> isAbsolute importedNs
       in if builtIn then
            (case hostRequire h importingNamespace requiredNsNormalized of
               None \<Rightarrow> Some (st1, Thrown (ErrorVal HostError))
             | Some v \<Rightarrow> Some (st1, Ok v))
          else
            bind (if evalImports then evaluateFile ev h st1 requiredNsNormalized evalImports
                  else Some (st1, Ok Undefined)) (\<lambda>st2 r.
              Some (st2, Ok (defaultExportValue st2 requiredNsNormalized))))"

text \<open>\<^verbatim>\<open>dynamicImport\<close>. The test for a built-in is on the normalized path; the result
  is a resolved promise.\<close>

definition dynamicImport ::
  "evaluator \<Rightarrow> host \<Rightarrow> store \<Rightarrow> namespace \<Rightarrow> string \<Rightarrow> bool \<Rightarrow> (store \<times> val res) option" where
  "dynamicImport ev h st importingNamespace importedNs evalImports =
     bind (Some (normalizeImportPath h st importingNamespace importedNs)) (\<lambda>st1 importedNamespaceNormalized.
       let builtIn = \<not> isAbsolute importedNamespaceNormalized
       in if builtIn then
            (case hostRequire h importingNamespace importedNamespaceNormalized of
               None \<Rightarrow> Some (st1, Thrown (ErrorVal HostError))
             | Some v \<Rightarrow> Some (st1, Ok (PromiseVal v)))
          else
            bind (if evalImports then evaluateFile ev h st1 importedNamespaceNormalized evalImports
                  else Some (st1, Ok Undefined)) (\<lambda>st2 r.
              Some (st2, mapRes PromiseVal (constructNamespaceExport st2 importedNamespaceNormalized))))"

text \<open>A call of one of the engine's functions from the code.\<close>

definition callHelper ::
  "evaluator \<Rightarrow> host \<Rightarrow> store \<Rightarrow> helper \<Rightarrow> val list \<Rightarrow> (store \<times> val res) option" where
  "callHelper ev h st hp args =
     (case hp of
        RegisterValue \<Rightarrow>
          (case (argStr args 0, argStr args 1) of
             (Some ns, Some k) \<Rightarrow>
               (case registerValue st ns k (arg args 2) of (st1, v) \<Rightarrow> Some (st1, Ok v))
           | _ \<Rightarrow> Some (st, Unmodelled))
      | RegisterValueExport \<Rightarrow>
          (case (argStr args 0, argStr args 1, argStr args 2) of
             (Some ns, Some l, Some e) \<Rightarrow>
               (case registerValueExport st ns l (Named e) of (st1, k) \<Rightarrow> Some (st1, Ok (Str e)))
           | _ \<Rightarrow> Some (st, Unmodelled))
      | RegisterDefaultValueExport \<Rightarrow>
          (case (argStr args 0, argStr args 1) of
             (Some ns, Some l) \<Rightarrow>
               (case registerDefaultValueExport st ns l of (st1, v) \<Rightarrow> Some (st1, Ok v))
           | _ \<Rightarrow> Some (st, Unmodelled))
      | RegisterValueImport \<Rightarrow>
          (case (argStr args 0, argStr args 1, argStr args 2, argStr args 3) of
             (Some ns, Some l, Some i, Some s) \<Rightarrow>
               (case registerValueImport h st ns l (Named i) s (truthy (arg args 4)) of
                  (st1, r) \<Rightarrow> Some (st1, mapRes Str r))
           | _ \<Rightarrow> Some (st, Unmodelled))
      | DynamicImport \<Rightarrow>
          (case (argStr args 0, argStr args 1) of
             (Some a, Some b) \<Rightarrow> dynamicImport ev h st a b (truthy (arg args 2))
           | _ \<Rightarrow> Some (st, Unmodelled)))"

text \<open>
  A call of a value: the \<^verbatim>\<open>require\<close> stub, one of the engine's functions, the host's
  \<^verbatim>\<open>console.error\<close> (which writes its arguments to standard error); calling another
  host value is not modelled, and calling anything else throws a \<^verbatim>\<open>TypeError\<close>.
\<close>

definition callVal :: "evaluator \<Rightarrow> host \<Rightarrow> store \<Rightarrow> val \<Rightarrow> val list \<Rightarrow> (store \<times> val res) option" where
  "callVal ev h st f args =
     (case f of
        RequireStub ns evalImports \<Rightarrow>
          (case argStr args 0 of
             Some s \<Rightarrow> requireCustom ev h st ns s evalImports
           | None \<Rightarrow> Some (st, Unmodelled))
      | HelperVal hp \<Rightarrow> callHelper ev h st hp args
      | HostVal s \<Rightarrow>
          (if s = ''console.error'' then Some (st\<lparr>stderr := stderr st @ args\<rparr>, Ok Undefined)
           else Some (st, Unmodelled))
      | _ \<Rightarrow> Some (st, Thrown (ErrorVal TypeError)))"

text \<open>Expressions, evaluated left to right.\<close>

fun evalExpr ::
  "evaluator \<Rightarrow> host \<Rightarrow> env \<Rightarrow> (string \<times> val) list \<Rightarrow> store \<Rightarrow> expr \<Rightarrow> (store \<times> val res) option"
and evalArgs ::
  "evaluator \<Rightarrow> host \<Rightarrow> env \<Rightarrow> (string \<times> val) list \<Rightarrow> store \<Rightarrow> expr list \<Rightarrow> (store \<times> val list res) option"
where
  "evalExpr ev h env locals st (ELit v) = Some (st, Ok v)"
| "evalExpr ev h env locals st (EVar x) = Some (st, lookupVar h env locals x)"
| "evalExpr ev h env locals st (EAdd a b) =
     bind (evalExpr ev h env locals st a) (\<lambda>st1 va.
       bind (evalExpr ev h env locals st1 b) (\<lambda>st2 vb. Some (st2, addVals va vb)))"
| "evalExpr ev h env locals st (EMember a p) =
     bind (evalExpr ev h env locals st a) (\<lambda>st1 va. Some (st1, getMember st1 va p))"
| "evalExpr ev h env locals st (ECall f args) =
     bind (evalExpr ev h env locals st f) (\<lambda>st1 vf.
       bind (evalArgs ev h env locals st1 args) (\<lambda>st2 vs. callVal ev h st2 vf vs))"
| "evalExpr ev h env locals st (EAssignMember a p b) =
     bind (evalExpr ev h env locals st a) (\<lambda>st1 va.
       bind (evalExpr ev h env locals st1 b) (\<lambda>st2 vb. Some (setMember st2 va p vb)))"
| "evalArgs ev h env locals st [] = Some (st, Ok [])"
| "evalArgs ev h env locals st (a # as) =
     bind (evalExpr ev h env locals st a) (\<lambda>st1 v.
       bind (evalArgs ev h env locals st1 as) (\<lambda>st2 vs. Some (st2, Ok (v # vs))))"

text \<open>
  The statements of the function body, in order. The result holds the \<^verbatim>\<open>const\<close>s
  initialised so far and, after a \<^verbatim>\<open>return\<close>, the returned value.
\<close>

fun execStmts ::
  "evaluator \<Rightarrow> host \<Rightarrow> env \<Rightarrow> (string \<times> val) list \<Rightarrow> store \<Rightarrow> stmt list
     \<Rightarrow> (store \<times> ((string \<times> val) list \<times> val option) res) option" where
  "execStmts ev h env locals st [] = Some (st, Ok (locals, None))"
| "execStmts ev h env locals st (SExpr e # ss) =
     bind (evalExpr ev h env locals st e) (\<lambda>st1 v. execStmts ev h env locals st1 ss)"
| "execStmts ev h env locals st (SConst x e # ss) =
     bind (evalExpr ev h env locals st e) (\<lambda>st1 v. execStmts ev h env ((x, v) # locals) st1 ss)"
| "execStmts ev h env locals st (SThrow e # ss) =
     bind (evalExpr ev h env locals st e) (\<lambda>st1 v. Some (st1, Thrown v))"
| "execStmts ev h env locals st (SReturn e # ss) =
     bind (evalExpr ev h env locals st e) (\<lambda>st1 v. Some (st1, Ok (locals, Some v)))"
| "execStmts ev h env locals st (SExportSpecs specs # ss) = Some (st, Unmodelled)"

text \<open>
  \<^verbatim>\<open>ImportDeclaration.enter\<close> for the import declarations of the fragment, in order:
  resolve the source; evaluate a user module that has no entry in \<^verbatim>\<open>namespaces\<close>,
  after giving it an empty one; register every specifier.
\<close>

fun processImports ::
  "evaluator \<Rightarrow> host \<Rightarrow> store \<Rightarrow> namespace \<Rightarrow> bool \<Rightarrow> importDecl list \<Rightarrow> (store \<times> unit res) option" where
  "processImports ev h st fileName evalImports [] = Some (st, Ok ())"
| "processImports ev h st fileName evalImports (d # ds) =
     bind (Some (normalizeImportPath h st fileName (source d))) (\<lambda>st1 importedNs.
       let builtIn = \<not> isAbsolute importedNs
       in bind (if \<not> builtIn \<and> evalImports \<and> map_of (namespaces st1) importedNs = None then
                  evaluateFile ev h (st1\<lparr>namespaces := AList.update importedNs [] (namespaces st1)\<rparr>)
                    importedNs evalImports
                else Some (st1, Ok Undefined)) (\<lambda>st3 r.
          bind (Some (registerSpecifiers h st3 fileName (source d) builtIn (specifiers d))) (\<lambda>st4 u.
            processImports ev h st4 fileName evalImports ds)))"

text \<open>
  The \<^verbatim>\<open>catch\<close> block of the wrapper, \<^verbatim>\<open>console.error(e)\<close>. It is outside the
  \<^verbatim>\<open>try\<close> block, so the \<^verbatim>\<open>const\<close>s of the code are out of scope, and inside
  the two \<^verbatim>\<open>with\<close> statements.
\<close>

definition catchHandler :: "evaluator \<Rightarrow> host \<Rightarrow> env \<Rightarrow> store \<Rightarrow> val \<Rightarrow> (store \<times> val res) option" where
  "catchHandler ev h env st e =
     bind (Some (st, lookupVar h (env\<lparr>envDeclared := []\<rparr>) [] ''console'')) (\<lambda>st1 console.
       bind (Some (st1, getMember st1 console ''error'')) (\<lambda>st2 f.
         bind (callVal ev h st2 f [e]) (\<lambda>st3 r. Some (st3, Ok Undefined))))"

text \<open>
  \<^verbatim>\<open>vm.runInContext\<close> on the wrapper. An export statement that the rewriter left in
  the code does not compile inside a function.
\<close>

definition runInContext :: "evaluator \<Rightarrow> host \<Rightarrow> env \<Rightarrow> store \<Rightarrow> stmt list \<Rightarrow> (store \<times> val res) option" where
  "runInContext ev h env st codeTransformed =
     (if list_ex isExportSpecs codeTransformed then Some (st, Thrown (ErrorVal SyntaxError))
      else
        (case execStmts ev h env [] st codeTransformed of
           None \<Rightarrow> None
         | Some (st1, r) \<Rightarrow>
             (case r of
                Ok c \<Rightarrow> Some (st1, Ok (case snd c of None \<Rightarrow> Undefined | Some v \<Rightarrow> v))
              | Thrown e \<Rightarrow> catchHandler ev h env st1 e
              | Unmodelled \<Rightarrow> Some (st1, Unmodelled))))"

text \<open>
  The part of \<^verbatim>\<open>evaluate\<close> between the rewriting and the execution: the two scope
  objects; \<open>i\<close> is the index that the target object of \<^verbatim>\<open>moduleStub\<close> will get.
\<close>

definition synthesizeScope ::
  "host \<Rightarrow> store \<Rightarrow> namespace \<Rightarrow> bool \<Rightarrow> stmt list \<Rightarrow> env res" where
  "synthesizeScope h st namespace evalImports codeTransformed =
     (let ns = getOrEmpty (namespaces st) namespace;
          nsImports = getOrEmpty (valueImports st) namespace
      in case buildImports h st namespace nsImports [] of
           Ok imps \<Rightarrow>
             (case fromPairs ns of
                None \<Rightarrow> Unmodelled
              | Some nsFor \<Rightarrow>
                  Ok \<lparr>envNamespace = namespace, envEvalImports = evalImports,
                      nsImportsForScope = imps, nsForScope = nsFor,
                      envModule = length (moduleObjs st),
                      envDeclared = declaredNames codeTransformed\<rparr>)
         | Thrown e \<Rightarrow> Thrown e
         | Unmodelled \<Rightarrow> Unmodelled)"

text \<open>
  \<^verbatim>\<open>transform\<close>: parse, then one pass of the plugin. The import declarations act on
  the store while the pass runs; the other visitors only rewrite.
\<close>

definition transform ::
  "evaluator \<Rightarrow> host \<Rightarrow> store \<Rightarrow> namespace \<Rightarrow> program \<Rightarrow> bool \<Rightarrow> (store \<times> stmt list res) option" where
  "transform ev h st namespace code evalImports =
     (if \<not> parses code then Some (st, Thrown (ErrorVal ParseError))
      else
        bind (processImports ev h st namespace evalImports (importDecls code)) (\<lambda>st1 u.
          Some (st1, Ok (rewrite namespace (body code)))))"

text \<open>The body of \<^verbatim>\<open>evaluate\<close>, with \<open>ev\<close> for the calls of \<^verbatim>\<open>evaluate\<close> in it.\<close>

definition evaluateStep :: "evaluator \<Rightarrow> host \<Rightarrow> evaluator" where
  "evaluateStep ev h st namespace code evalImports =
     bind (transform ev h st namespace code evalImports) (\<lambda>st1 codeTransformed.
       bind (Some (st1, synthesizeScope h st1 namespace evalImports codeTransformed))
         (\<lambda>st2 env.
            runInContext ev h env
              (st2\<lparr>moduleObjs := moduleObjs st2 @ [[(''exports'', ExportsStub namespace)]]\<rparr>)
              codeTransformed))"

text \<open>\<open>evaluate n\<close>: \<^verbatim>\<open>evaluate\<close> with room for \<open>n\<close> nested calls.\<close>

primrec evaluate :: "nat \<Rightarrow> host \<Rightarrow> evaluator" where
  "evaluate 0 h = (\<lambda>st namespace code evalImports. None)"
| "evaluate (Suc n) h = evaluateStep (evaluate n h) h"



section \<open>The registration functions of the second engine\<close>

text \<open>
  The repository holds a second set of registration functions (\<^verbatim>\<open>doRegisterValue\<close>,
  \<^verbatim>\<open>doRegisterExport\<close>, \<^verbatim>\<open>doRegisterDefaultExport\<close>) over two plain objects,
  \<^verbatim>\<open>valuesLookup\<close> and \<^verbatim>\<open>exportsLookup\<close>, in which an export is the local
  name alone.
\<close>

record lookups =
  valuesLookup :: "(namespace \<times> (string \<times> val) list) list"
  exportsLookup :: "(namespace \<times> (key \<times> string) list) list"

definition emptyLookups :: lookups where
  "emptyLookups = \<lparr>valuesLookup = [], exportsLookup = []\<rparr>"

text \<open>
  Modelled from the spec: \<^verbatim>\<open>objGet\<close> of \<^verbatim>\<open>./utils\<close>, which is not among the
  sources. ``Entries are created lazily on first write per namespace'': the entry under
  the key, and when there is none the default \<^verbatim>\<open>{}\<close>, which is stored under the key.
\<close>

definition objGet :: "(string \<times> 'a list) list \<Rightarrow> string \<Rightarrow> (string \<times> 'a list) list \<times> 'a list" where
  "objGet obj k =
     (case map_of obj k of
        Some e \<Rightarrow> (obj, e)
      | None \<Rightarrow> (AList.update k [] obj, []))"

definition doRegisterValue :: "lookups \<Rightarrow> namespace \<Rightarrow> string \<Rightarrow> val \<Rightarrow> lookups \<times> val res" where
  "doRegisterValue lk ns k v =
     (let (vl, values) = objGet (valuesLookup lk) ns
      in if k = ''__proto__'' then (lk\<lparr>valuesLookup := vl\<rparr>, Unmodelled)
         else (lk\<lparr>valuesLookup := AList.update ns (AList.update k v values) vl\<rparr>, Ok v))"

text \<open>\<^verbatim>\<open>local in values\<close> holds for an inherited property too.\<close>

definition doRegisterExport :: "lookups \<Rightarrow> namespace \<Rightarrow> string \<Rightarrow> string \<Rightarrow> lookups \<times> val res" where
  "doRegisterExport lk ns l e =
     (let (el, exportsValues) = objGet (exportsLookup lk) ns;
          (vl, values) = objGet (valuesLookup lk) ns;
          lk1 = lk\<lparr>valuesLookup := vl, exportsLookup := el\<rparr>
      in if \<not> hasProperty values l then (lk1, Thrown (ErrorVal MissingLocalError))
         else if e = ''__proto__'' then (lk1, Unmodelled)
         else (lk1\<lparr>exportsLookup := AList.update ns (AList.update (Named e) l exportsValues) el\<rparr>,
               Ok (Str e)))"

definition doRegisterDefaultExport :: "lookups \<Rightarrow> namespace \<Rightarrow> string \<Rightarrow> lookups \<times> val res" where
  "doRegisterDefaultExport lk ns l =
     (let (el, exportsValues) = objGet (exportsLookup lk) ns;
          (vl, values) = objGet (valuesLookup lk) ns;
          lk1 = lk\<lparr>valuesLookup := vl, exportsLookup := el\<rparr>
      in if \<not> hasProperty values l then (lk1, Thrown (ErrorVal MissingLocalError))
         else (lk1\<lparr>exportsLookup := AList.update ns (AList.update DefaultExport l exportsValues) el\<rparr>,
               Ok (Str ''Symbol(defaultExport)'')))"

section \<open>Example session\<close>

text \<open>
  A store in which \<^verbatim>\<open>/m/c.js\<close> has the binding \<^verbatim>\<open>a = 42\<close>, exported under the
  name \<^verbatim>\<open>x\<close>.
\<close>

definition exampleStore :: store where
  "exampleStore =
     fst (registerValueExport (fst (registerValue emptyStore ''/m/c.js'' ''a'' (Num 42)))
            ''/m/c.js'' ''a'' (Named ''x''))"

text \<open>
  A host with three user files: \<^verbatim>\<open>/m/a.js\<close> and \<^verbatim>\<open>/m/b.js\<close> import from each
  other,
  \<^verbatim>\<open>import { b } from './b'; const a = 1; export { a }; throw 'A ran'\<close> and
  \<^verbatim>\<open>import { a } from './a'; const b = 2; export { b }; a\<close>, and
  \<^verbatim>\<open>/m/c.js\<close> is \<^verbatim>\<open>module.exports = 7\<close>, which is also what the host's own
  loader makes of it. Every other module that the host loads is opaque.
\<close>

definition fileA :: program where
  "fileA = Program [ImportDeclaration ''./b'' [ImportSpecifier ''b'' ''b'']]
             [SConst ''a'' (ELit (Num 1)), SExportSpecs [(''a'', ''a'')], SThrow (ELit (Str ''A ran''))]"

definition fileB :: program where
  "fileB = Program [ImportDeclaration ''./a'' [ImportSpecifier ''a'' ''a'']]
             [SConst ''b'' (ELit (Num 2)), SExportSpecs [(''b'', ''b'')], SExpr (EVar ''a'')]"

definition fileC :: program where
  "fileC = Program [] [SExpr (EAssignMember (EVar ''module'') ''exports'' (ELit (Num 7)))]"

definition exampleResolve :: "string \<Rightarrow> string \<Rightarrow> string option" where
  "exampleResolve importing spec =
     (if spec = ''./a'' then Some ''/m/a.js''
      else if spec = ''./b'' then Some ''/m/b.js''
      else if spec = ''./c'' then Some ''/m/c.js''
      else if spec = ''fs'' then Some ''fs''
      else if isAbsolute spec then Some spec
      else None)"

definition exampleRequire :: "string \<Rightarrow> string \<Rightarrow> val option" where
  "exampleRequire importing ident =
     (if ident = ''/m/c.js'' then Some (Num 7) else Some (HostVal ident))"

definition exampleReadFile :: "string \<Rightarrow> program option" where
  "exampleReadFile p =
     (if p = ''/m/a.js'' then Some fileA
      else if p = ''/m/b.js'' then Some fileB
      else if p = ''/m/c.js'' then Some fileC
      else None)"

definition exampleDirname :: "string \<Rightarrow> string" where
  "exampleDirname p = ''/m''"

definition exampleHost :: host where
  "exampleHost =
     \<lparr>resolve = exampleResolve, hostRequire = exampleRequire, readFile = exampleReadFile,
      globals = [(''console'', HostVal ''console'')], dirname = exampleDirname\<rparr>"

text \<open>A session: requests \<^verbatim>\<open>(namespace, code, evalImports)\<close> evaluated one after
  the other on the same store, with the result of each.\<close>

fun evaluateAll ::
  "nat \<Rightarrow> host \<Rightarrow> store \<Rightarrow> (namespace \<times> program \<times> bool) list \<Rightarrow> (store \<times> val res list) option" where
  "evaluateAll n h st [] = Some (st, [])"
| "evaluateAll n h st ((ns, code, evalImports) # reqs) =
     (case evaluate n h st ns code evalImports of
        None \<Rightarrow> None
      | Some (st1, r) \<Rightarrow>
          (case evaluateAll n h st1 reqs of
             None \<Rightarrow> None
           | Some (st2, rs) \<Rightarrow> Some (st2, r # rs)))"



text \<open>The fragments \<^verbatim>\<open>module.exports = V\<close> and \<^verbatim>\<open>require('s')\<close>.\<close>

definition moduleExportsAssign :: "val \<Rightarrow> program" where
  "moduleExportsAssign v = Program [] [SExpr (EAssignMember (EVar ''module'') ''exports'' (ELit v))]"

definition requireCall :: "string \<Rightarrow> program" where
  "requireCall s = Program [] [SExpr (ECall (EVar ''require'') [ELit (Str s)])]"

text \<open>The scope of a namespace that has neither bindings nor imports.\<close>

definition freshEnv :: "namespace \<Rightarrow> string list \<Rightarrow> env" where
  "freshEnv ns declared =
     \<lparr>envNamespace = ns, envEvalImports = False, nsImportsForScope = [], nsForScope = [],
      envModule = 0, envDeclared = declared\<rparr>"



text \<open>
  The example store after \<^verbatim>\<open>import { x as y, a } from './c'\<close> in
  \<^verbatim>\<open>/m/d.js\<close>, and the scope that \<^verbatim>\<open>evaluate\<close> makes of it:
  \<^verbatim>\<open>/m/c.js\<close> exports its binding \<^verbatim>\<open>a\<close> under the name \<^verbatim>\<open>x\<close> and has
  no export \<^verbatim>\<open>a\<close>.
\<close>

definition importStore :: store where
  "importStore =
     fst (registerSpecifiers exampleHost exampleStore ''/m/d.js'' ''./c'' False
            [ImportSpecifier ''y'' ''x'', ImportSpecifier ''a'' ''a''])"

definition importEnv :: env where
  "importEnv =
     \<lparr>envNamespace = ''/m/d.js'', envEvalImports = False,
      nsImportsForScope = [(''y'', Num 42), (''a'', Undefined)],
      nsForScope = [], envModule = 0, envDeclared = []\<rparr>"

section \<open>Files whose own code evaluates nothing\<close>


text \<open>
  The names that the rewritten code and the wrapper use themselves, and
  \<^verbatim>\<open>__proto__\<close>, which is no ordinary property name of a scope object.
\<close>

definition reservedNames :: "string list" where
  "reservedNames = [''registerValue'', ''registerValueExport'', ''console'', ''__proto__'']"




text \<open>The namespaces that have an entry in \<^verbatim>\<open>namespaces\<close>.\<close>

definition marked :: "store \<Rightarrow> namespace set" where
  "marked st = fst ` set (namespaces st)"

text \<open>
  A named or default import of a user module, or a default or namespace import of a
  built-in: the imports for which scope synthesis reads no property of a host value and
  builds no namespace object.
\<close>

definition plainImport :: "Import \<Rightarrow> bool" where
  "plainImport imp =
     (if isBuiltIn imp then imported imp = DefaultExport \<or> imported imp = NamespaceExport
      else imported imp \<noteq> NamespaceExport)"

text \<open>
  No binding and no import of any namespace has one of the reserved names, and every
  import in the store is a plain one.
\<close>

definition tidy :: "store \<Rightarrow> bool" where
  "tidy st =
     (\<forall>m. (\<forall>f \<in> set reservedNames.
              f \<notin> fst ` set (getOrEmpty (namespaces st) m)
              \<and> f \<notin> fst ` set (getOrEmpty (valueImports st) m))
          \<and> (\<forall>p \<in> set (getOrEmpty (valueImports st) m). plainImport (snd p)))"




section \<open>Properties\<close>

lemma exampleStore_simps:
  "valueExports exampleStore = [(''/m/c.js'', [(Named ''x'', Export (Named ''x'') ''a'')])]"
  "namespaces exampleStore = [(''/m/c.js'', [(''a'', Num 42)])]"
  "valueImports exampleStore = []"
  "moduleObjs exampleStore = []"
  "stderr exampleStore = []"
  "uuids exampleStore = 0"
  by (simp_all add: exampleStore_def registerValueExport_def registerValue_def emptyStore_def
        getOrEmpty_def)

lemma find_cases:
  "(\<exists>e. find P xs = Some e \<and> e \<in> set xs \<and> P e) \<or> (find P xs = None \<and> (\<forall>e \<in> set xs. \<not> P e))"
  by (induction xs) auto

subsection \<open>Reading a property of the exports stub\<close>

text \<open>
  C10. Reading a property \<open>p\<close> of the \<^verbatim>\<open>exports\<close> stub gives an \<^verbatim>\<open>Export\<close> record
  of the namespace whose local name is \<open>p\<close>, or \<^verbatim>\<open>undefined\<close> when the namespace has
  no such export; it is never the value bound to the export.
\<close>

theorem exports_stub_read_gives_export_record:
  "(\<exists>e. e \<in> set (map snd (getOrEmpty (valueExports st) ns)) \<and> local e = p
        \<and> getMember st (ExportsStub ns) p = Ok (ExportVal e))
   \<or> ((\<forall>e \<in> set (map snd (getOrEmpty (valueExports st) ns)). local e \<noteq> p)
        \<and> getMember st (ExportsStub ns) p = Ok Undefined)"
  using find_cases [of "\<lambda>e. local e = p" "map snd (getOrEmpty (valueExports st) ns)"]
  by (auto simp: getMember_def exportsStubGet_def)

text \<open>
  In the example store, \<^verbatim>\<open>exports.a\<close> is the record of the export \<^verbatim>\<open>x\<close>, not the
  number 42 bound to \<^verbatim>\<open>a\<close>, and \<^verbatim>\<open>exports.x\<close> is \<^verbatim>\<open>undefined\<close>.
\<close>

theorem exports_stub_read_gives_export_record_witness:
  "getMember exampleStore (ExportsStub ''/m/c.js'') ''a'' = Ok (ExportVal (Export (Named ''x'') ''a''))
   \<and> getMember exampleStore (ExportsStub ''/m/c.js'') ''x'' = Ok Undefined
   \<and> map_of (getOrEmpty (namespaces exampleStore) ''/m/c.js'') ''a'' = Some (Num 42)"
  using exports_stub_read_gives_export_record [of exampleStore "''/m/c.js''" "''a''"]
        exports_stub_read_gives_export_record [of exampleStore "''/m/c.js''" "''x''"]
  by (auto simp: exampleStore_simps getOrEmpty_def)

subsection \<open>Exporting a name that has no binding\<close>

lemma getOrEmpty_objGet: "getOrEmpty (fst (objGet m k)) k = getOrEmpty m k"
  by (auto simp: objGet_def getOrEmpty_def update_conv' split: option.splits)

lemma snd_objGet: "snd (objGet m k) = getOrEmpty m k"
  by (auto simp: objGet_def getOrEmpty_def split: option.splits)

text \<open>
  C3, as the code has it. \<^verbatim>\<open>doRegisterExport\<close> and \<^verbatim>\<open>doRegisterDefaultExport\<close>
  throw when the local name is no property of the namespace's values, and then leave the
  exports of the namespace as they were. \<^verbatim>\<open>registerValueExport\<close> and
  \<^verbatim>\<open>registerDefaultValueExport\<close> of engine.ts make no such check: whatever the
  bindings are, the export is registered, and the call from the rewritten code returns
  the exported name.
\<close>

theorem export_of_missing_local:
  "(\<not> hasProperty (getOrEmpty (valuesLookup lk) ns) l \<longrightarrow>
      snd (doRegisterExport lk ns l e) = Thrown (ErrorVal MissingLocalError)
      \<and> getOrEmpty (exportsLookup (fst (doRegisterExport lk ns l e))) ns
          = getOrEmpty (exportsLookup lk) ns
      \<and> snd (doRegisterDefaultExport lk ns l) = Thrown (ErrorVal MissingLocalError)
      \<and> getOrEmpty (exportsLookup (fst (doRegisterDefaultExport lk ns l))) ns
          = getOrEmpty (exportsLookup lk) ns)
   \<and> map_of (getOrEmpty (valueExports (fst (registerValueExport st ns l k))) ns) k
        = Some (Export k l)
   \<and> map_of (getOrEmpty (valueExports (fst (registerDefaultValueExport st ns l))) ns) DefaultExport
        = Some (Export DefaultExport l)
   \<and> callVal ev h st (HelperVal RegisterValueExport) [Str ns, Str l, Str e]
        = Some (fst (registerValueExport st ns l (Named e)), Ok (Str e))"
  by (auto simp: doRegisterExport_def doRegisterDefaultExport_def registerValueExport_def
        registerDefaultValueExport_def Let_def snd_objGet getOrEmpty_objGet update_conv'
        callVal_def callHelper_def argStr_def arg_def
        split: prod.splits)
     (auto simp: getOrEmpty_def update_conv' objGet_def split: option.splits)

theorem export_of_missing_local_witness:
  "snd (doRegisterExport emptyLookups ''/m/x.js'' ''x'' ''y'') = Thrown (ErrorVal MissingLocalError)
   \<and> getOrEmpty (exportsLookup (fst (doRegisterExport emptyLookups ''/m/x.js'' ''x'' ''y''))) ''/m/x.js''
       = []
   \<and> snd (doRegisterDefaultExport emptyLookups ''/m/x.js'' ''x'') = Thrown (ErrorVal MissingLocalError)
   \<and> map_of (getOrEmpty (valueExports (fst (registerValueExport emptyStore ''/m/x.js'' ''x'' (Named ''y''))))
         ''/m/x.js'') (Named ''y'')
       = Some (Export (Named ''y'') ''x'')"
  using export_of_missing_local [of emptyLookups "''/m/x.js''" "''x''" "''y''" emptyStore "Named ''y''"]
  by (simp add: emptyLookups_def hasProperty_def objectPrototypeKeys_def getOrEmpty_def)

text \<open>
  \<^verbatim>\<open>export { x as y }\<close> in a fresh namespace, where \<^verbatim>\<open>x\<close> has no binding:
  \<^verbatim>\<open>evaluate\<close> returns \<^verbatim>\<open>'y'\<close>, nothing is thrown, and the export is in the store.
\<close>

theorem export_of_missing_local_counterexample:
  "map_option snd (evaluate (Suc 0) exampleHost emptyStore ''/m/x.js''
       (Program [] [SExportSpecs [(''x'', ''y'')]]) False) = Some (Ok (Str ''y''))
   \<and> map_option (valueExports \<circ> fst) (evaluate (Suc 0) exampleHost emptyStore ''/m/x.js''
       (Program [] [SExportSpecs [(''x'', ''y'')]]) False)
      = Some [(''/m/x.js'', [(Named ''y'', Export (Named ''y'') ''x'')])]
   \<and> map_option (namespaces \<circ> fst) (evaluate (Suc 0) exampleHost emptyStore ''/m/x.js''
       (Program [] [SExportSpecs [(''x'', ''y'')]]) False) = Some []"
  by code_simp

subsection \<open>The layers of a name lookup\<close>




subsection \<open>How \<^verbatim>\<open>require\<close> tells a user module from a built-in\<close>

text \<open>
  C5 at \<^verbatim>\<open>require('./c')\<close> in \<^verbatim>\<open>/m/d.js\<close>. The specifier resolves to the
  absolute path \<^verbatim>\<open>/m/c.js\<close>, and still \<^verbatim>\<open>requireCustom\<close> takes it for a
  built-in, because it tests the specifier as written: the result is what the host's
  loader returns (7) and not the default export of \<^verbatim>\<open>/m/c.js\<close> in the store (99),
  which \<^verbatim>\<open>require('/m/c.js')\<close> returns.
\<close>

theorem require_tests_the_raw_specifier:
  "resolve exampleHost ''/m/d.js'' ''./c'' = Some ''/m/c.js''
   \<and> isAbsolute ''/m/c.js''
   \<and> map_option snd (evaluateAll (Suc 0) exampleHost emptyStore
        [(''/m/c.js'', moduleExportsAssign (Num 99), False),
         (''/m/d.js'', requireCall ''./c'', False),
         (''/m/d.js'', requireCall ''/m/c.js'', False)])
      = Some [Ok (Num 99), Ok (Num 7), Ok (Num 99)]"
  by code_simp

subsection \<open>\<^verbatim>\<open>module.exports\<close> and \<^verbatim>\<open>require\<close>\<close>




lemma synthesizeScope_fields:
  assumes "synthesizeScope h st ns e code = Ok env"
  shows "envNamespace env = ns" "envEvalImports env = e" "envModule env = length (moduleObjs st)"
        "envDeclared env = declaredNames code"
  using assms
  by (auto simp: synthesizeScope_def Let_def split: res.splits option.splits)








subsection \<open>The value of a fragment\<close>

lemma bind_Some_Ok [simp]: "bind (Some (st, Ok v)) f = f st v"
  by (simp add: bind_def)

lemma bind_stops [simp]:
  "bind (Some (st, Thrown x)) f = Some (st, Thrown x)"
  "bind (Some (st, Unmodelled)) f = Some (st, Unmodelled)"
  "bind None f = None"
  by (simp_all add: bind_def)

lemma execStmts_append:
  assumes "execStmts ev h env locals st pre = Some (st3, Ok (locals3, None))"
  shows "execStmts ev h env locals st (pre @ post) = execStmts ev h env locals3 st3 post"
  using assms
proof (induction pre arbitrary: locals st)
  case Nil
  then show ?case by simp
next
  case (Cons s pre)
  show ?case
  proof (cases s)
    case (SExpr x)
    with Cons.prems obtain st1 v where
      e: "evalExpr ev h env locals st x = Some (st1, Ok v)"
      and r: "execStmts ev h env locals st1 pre = Some (st3, Ok (locals3, None))"
      by (auto simp: bind_def split: option.splits res.splits)
    show ?thesis using SExpr e Cons.IH [OF r] by simp
  next
    case (SConst a x)
    with Cons.prems obtain st1 v where
      e: "evalExpr ev h env locals st x = Some (st1, Ok v)"
      and r: "execStmts ev h env ((a, v) # locals) st1 pre = Some (st3, Ok (locals3, None))"
      by (auto simp: bind_def split: option.splits res.splits)
    show ?thesis using SConst e Cons.IH [OF r] by simp
  next
    case (SThrow x)
    with Cons.prems show ?thesis by (auto simp: bind_def split: option.splits res.splits)
  next
    case (SReturn x)
    with Cons.prems show ?thesis by (auto simp: bind_def split: option.splits res.splits)
  next
    case (SExportSpecs specs)
    with Cons.prems show ?thesis by simp
  qed
qed

lemma execStmts_normal_no_exports:
  assumes "execStmts ev h env locals st code = Some (st3, Ok (locals3, None))"
  shows "\<not> list_ex isExportSpecs code"
  using assms
proof (induction code arbitrary: locals st)
  case Nil
  then show ?case by simp
next
  case (Cons s code)
  show ?case
  proof (cases s)
    case (SExpr x)
    with Cons.prems obtain st1 v where
      r: "execStmts ev h env locals st1 code = Some (st3, Ok (locals3, None))"
      by (auto simp: bind_def split: option.splits res.splits)
    show ?thesis using SExpr Cons.IH [OF r] by (simp add: isExportSpecs_def)
  next
    case (SConst a x)
    with Cons.prems obtain st1 v where
      r: "execStmts ev h env ((a, v) # locals) st1 code = Some (st3, Ok (locals3, None))"
      by (auto simp: bind_def split: option.splits res.splits)
    show ?thesis using SConst Cons.IH [OF r] by (simp add: isExportSpecs_def)
  next
    case (SThrow x)
    with Cons.prems show ?thesis by (auto simp: bind_def split: option.splits res.splits)
  next
    case (SReturn x)
    with Cons.prems show ?thesis by (auto simp: bind_def split: option.splits res.splits)
  next
    case (SExportSpecs specs)
    with Cons.prems show ?thesis by simp
  qed
qed

lemma rewrite_trailing_expr:
  "rewrite ns (ss @ [SExpr x]) = concat (map (rewriteStmt ns) ss) @ [SReturn x]"
  by (simp add: rewrite_def rewriteStmt_def trailingReturn_def)

lemma rewrite_trailing_const:
  "rewrite ns (ss @ [SConst a x]) =
     concat (map (rewriteStmt ns) ss)
     @ [SConst a x, SReturn (ECall (EVar ''registerValue'') [ELit (Str ns), ELit (Str a), EVar a])]"
  by (simp add: rewrite_def rewriteStmt_def trailingReturn_def registerValueExpr_def butlast_append)

lemma runInContext_return:
  assumes "execStmts ev h env [] st pre = Some (st3, Ok (locals, None))"
      and "evalExpr ev h env locals st3 x = Some (st4, Ok v)"
  shows "runInContext ev h env st (pre @ [SReturn x]) = Some (st4, Ok v)"
proof -
  have "execStmts ev h env [] st (pre @ [SReturn x]) = Some (st4, Ok (locals, Some v))"
    using execStmts_append [OF assms(1), of "[SReturn x]"] assms(2) by simp
  moreover have "\<not> list_ex isExportSpecs (pre @ [SReturn x])"
    using execStmts_normal_no_exports [OF assms(1)] by (simp add: isExportSpecs_def)
  ultimately show ?thesis by (simp add: runInContext_def)
qed

lemma rewrite_trailing_export:
  "rewrite ns (ss @ [SExportSpecs (sp # sps)]) =
     (concat (map (rewriteStmt ns) ss) @ rev (map (registerExportExpr ns) sps))
     @ [SReturn (ECall (EVar ''registerValueExport'')
                   [ELit (Str ns), ELit (Str (fst sp)), ELit (Str (snd sp))])]"
  by (simp add: rewrite_def rewriteStmt_def trailingReturn_def registerExportExpr_def butlast_append)

lemma transform_Ok:
  assumes "transform ev h st ns prog e = Some (st1, Ok code)"
  shows "code = rewrite ns (body prog)"
  using assms
  by (auto simp: transform_def bind_def split: if_splits option.splits res.splits)

lemma evaluate_transformed:
  assumes "transform (evaluate n h) h st ns prog e = Some (st1, Ok code)"
      and "synthesizeScope h st1 ns e code = Ok env"
  shows "evaluate (Suc n) h st ns prog e =
           runInContext (evaluate n h) h env
             (st1\<lparr>moduleObjs := moduleObjs st1 @ [[(''exports'', ExportsStub ns)]]\<rparr>) code"
  using assms by (simp add: evaluateStep_def)

lemma runInContext_no_return:
  assumes "execStmts ev h env [] st code = Some (st3, Ok (locals, None))"
  shows "runInContext ev h env st code = Some (st3, Ok Undefined)"
  using assms execStmts_normal_no_exports [OF assms] by (simp add: runInContext_def)

lemma transform_no_imports:
  assumes "parses (Program [] b)"
  shows "transform ev h st ns (Program [] b) e = Some (st, Ok (rewrite ns b))"
  using assms by (simp add: transform_def)

lemma synthesizeScope_emptyStore:
  "synthesizeScope h emptyStore ns False code = Ok (freshEnv ns (declaredNames code))"
  by (simp add: synthesizeScope_def emptyStore_def getOrEmpty_def fromPairs_def freshEnv_def)

text \<open>
  C4, as the code has it. The \<^verbatim>\<open>return\<close> is made of the last expression statement
  of the rewritten program, which may be a call that the rewriter has inserted. When the
  fragment ends in an expression statement, the statements before it complete and the
  expression has a value, \<^verbatim>\<open>evaluate\<close> returns that value. When the fragment ends in
  a \<^verbatim>\<open>const\<close> declaration, the call of \<^verbatim>\<open>registerValue\<close> that the rewriter
  puts after the declaration becomes the \<^verbatim>\<open>return\<close>: if the name
  \<^verbatim>\<open>registerValue\<close> stands for the engine's function there, \<^verbatim>\<open>evaluate\<close>
  returns the declared value. When the fragment ends in an export list with specifiers,
  the call of \<^verbatim>\<open>registerValueExport\<close> for the first specifier becomes the
  \<^verbatim>\<open>return\<close>: if the name \<^verbatim>\<open>registerValueExport\<close> stands for the engine's
  function there, \<^verbatim>\<open>evaluate\<close> returns the exported name of that specifier.
  \<^verbatim>\<open>evaluate\<close> returns \<^verbatim>\<open>undefined\<close> when the rewritten code runs to its end
  without a \<^verbatim>\<open>return\<close>, as the empty fragment does.
\<close>

theorem trailing_statement_value:
  assumes "transform (evaluate n h) h st ns prog e = Some (st1, Ok code)"
      and "synthesizeScope h st1 ns e code = Ok env"
  shows "(\<forall>ss x st3 locals st4 v.
            body prog = ss @ [SExpr x]
            \<and> execStmts (evaluate n h) h env []
                 (st1\<lparr>moduleObjs := moduleObjs st1 @ [[(''exports'', ExportsStub ns)]]\<rparr>)
                 (concat (map (rewriteStmt ns) ss)) = Some (st3, Ok (locals, None))
            \<and> evalExpr (evaluate n h) h env locals st3 x = Some (st4, Ok v)
            \<longrightarrow> evaluate (Suc n) h st ns prog e = Some (st4, Ok v))
       \<and> (\<forall>ss a x st3 locals st4 v.
            body prog = ss @ [SConst a x]
            \<and> execStmts (evaluate n h) h env []
                 (st1\<lparr>moduleObjs := moduleObjs st1 @ [[(''exports'', ExportsStub ns)]]\<rparr>)
                 (concat (map (rewriteStmt ns) ss)) = Some (st3, Ok (locals, None))
            \<and> evalExpr (evaluate n h) h env locals st3 x = Some (st4, Ok v)
            \<and> lookupVar h env ((a, v) # locals) ''registerValue'' = Ok (HelperVal RegisterValue)
            \<longrightarrow> evaluate (Suc n) h st ns prog e
                  = Some (fst (registerValue st4 ns a v), Ok v))
       \<and> (\<forall>ss sp sps st3 locals.
            body prog = ss @ [SExportSpecs (sp # sps)]
            \<and> execStmts (evaluate n h) h env []
                 (st1\<lparr>moduleObjs := moduleObjs st1 @ [[(''exports'', ExportsStub ns)]]\<rparr>)
                 (concat (map (rewriteStmt ns) ss) @ rev (map (registerExportExpr ns) sps))
                 = Some (st3, Ok (locals, None))
            \<and> lookupVar h env locals ''registerValueExport'' = Ok (HelperVal RegisterValueExport)
            \<longrightarrow> evaluate (Suc n) h st ns prog e
                  = Some (fst (registerValueExport st3 ns (fst sp) (Named (snd sp))),
                          Ok (Str (snd sp))))
       \<and> (\<forall>st3 locals.
            execStmts (evaluate n h) h env []
                 (st1\<lparr>moduleObjs := moduleObjs st1 @ [[(''exports'', ExportsStub ns)]]\<rparr>) code
                 = Some (st3, Ok (locals, None))
            \<longrightarrow> evaluate (Suc n) h st ns prog e = Some (st3, Ok Undefined))
       \<and> (body prog = [] \<longrightarrow>
            evaluate (Suc n) h st ns prog e
              = Some (st1\<lparr>moduleObjs := moduleObjs st1 @ [[(''exports'', ExportsStub ns)]]\<rparr>,
                      Ok Undefined))"
proof -
  let ?ev = "evaluate n h"
  let ?st2 = "st1\<lparr>moduleObjs := moduleObjs st1 @ [[(''exports'', ExportsStub ns)]]\<rparr>"
  have code: "code = rewrite ns (body prog)" by (rule transform_Ok [OF assms(1)])
  have run: "evaluate (Suc n) h st ns prog e = runInContext ?ev h env ?st2 code"
    by (rule evaluate_transformed [OF assms])
  have c1: "evaluate (Suc n) h st ns prog e = Some (st4, Ok v)"
    if b: "body prog = ss @ [SExpr x]"
      and p: "execStmts ?ev h env [] ?st2 (concat (map (rewriteStmt ns) ss))
                = Some (st3, Ok (locals, None))"
      and x: "evalExpr ?ev h env locals st3 x = Some (st4, Ok v)"
    for ss x st3 locals st4 v
  proof -
    have rw: "code = concat (map (rewriteStmt ns) ss) @ [SReturn x]"
      using code b by (simp add: rewrite_trailing_expr)
    show ?thesis unfolding run rw by (rule runInContext_return [OF p x])
  qed
  have c2: "evaluate (Suc n) h st ns prog e = Some (fst (registerValue st4 ns a v), Ok v)"
    if b: "body prog = ss @ [SConst a x]"
      and p: "execStmts ?ev h env [] ?st2 (concat (map (rewriteStmt ns) ss))
                = Some (st3, Ok (locals, None))"
      and x: "evalExpr ?ev h env locals st3 x = Some (st4, Ok v)"
      and f: "lookupVar h env ((a, v) # locals) ''registerValue'' = Ok (HelperVal RegisterValue)"
    for ss a x st3 locals st4 v
  proof -
    let ?pre = "concat (map (rewriteStmt ns) ss)"
    let ?call = "ECall (EVar ''registerValue'') [ELit (Str ns), ELit (Str a), EVar a]"
    have rw: "code = (?pre @ [SConst a x]) @ [SReturn ?call]"
      using code b by (simp add: rewrite_trailing_const)
    have decl: "a \<in> set (envDeclared env)"
      using synthesizeScope_fields(4) [OF assms(2)] rw by (simp add: declaredNames_def)
    have la: "lookupVar h env ((a, v) # locals) a = Ok v"
      using decl by (simp add: lookupVar_def)
    have p1: "execStmts ?ev h env [] ?st2 (?pre @ [SConst a x])
                = Some (st4, Ok ((a, v) # locals, None))"
      using execStmts_append [OF p, of "[SConst a x]"] x by simp
    have p2: "evalExpr ?ev h env ((a, v) # locals) st4 ?call
                = Some (fst (registerValue st4 ns a v), Ok v)"
      using f la
      by (simp add: callVal_def callHelper_def argStr_def arg_def registerValue_def Let_def)
    show ?thesis unfolding run rw by (rule runInContext_return [OF p1 p2])
  qed
  have c3: "evaluate (Suc n) h st ns prog e
              = Some (fst (registerValueExport st3 ns (fst sp) (Named (snd sp))), Ok (Str (snd sp)))"
    if b: "body prog = ss @ [SExportSpecs (sp # sps)]"
      and p: "execStmts ?ev h env [] ?st2
                (concat (map (rewriteStmt ns) ss) @ rev (map (registerExportExpr ns) sps))
                = Some (st3, Ok (locals, None))"
      and f: "lookupVar h env locals ''registerValueExport'' = Ok (HelperVal RegisterValueExport)"
    for ss sp sps st3 locals
  proof -
    let ?call = "ECall (EVar ''registerValueExport'')
                   [ELit (Str ns), ELit (Str (fst sp)), ELit (Str (snd sp))]"
    have rw: "code = (concat (map (rewriteStmt ns) ss) @ rev (map (registerExportExpr ns) sps))
                     @ [SReturn ?call]"
      using code b by (simp only: rewrite_trailing_export)
    have p2: "evalExpr ?ev h env locals st3 ?call
                = Some (fst (registerValueExport st3 ns (fst sp) (Named (snd sp))), Ok (Str (snd sp)))"
      using f
      by (simp add: callVal_def callHelper_def argStr_def arg_def registerValueExport_def Let_def)
    show ?thesis unfolding run rw by (rule runInContext_return [OF p p2])
  qed
  have c4: "evaluate (Suc n) h st ns prog e = Some (st3, Ok Undefined)"
    if "execStmts ?ev h env [] ?st2 code = Some (st3, Ok (locals, None))" for st3 locals
    unfolding run by (rule runInContext_no_return [OF that])
  have c5: "evaluate (Suc n) h st ns prog e = Some (?st2, Ok Undefined)" if "body prog = []"
  proof -
    have "code = []" using code that by (simp add: rewrite_def trailingReturn_def)
    then show ?thesis unfolding run by (simp add: runInContext_def)
  qed
  show ?thesis
  proof (intro conjI allI impI)
    fix ss x st3 locals st4 v
    assume "body prog = ss @ [SExpr x]
            \<and> execStmts ?ev h env [] ?st2 (concat (map (rewriteStmt ns) ss))
                 = Some (st3, Ok (locals, None))
            \<and> evalExpr ?ev h env locals st3 x = Some (st4, Ok v)"
    then show "evaluate (Suc n) h st ns prog e = Some (st4, Ok v)"
      using c1 [of ss x st3 locals st4 v] by simp
  next
    fix ss a x st3 locals st4 v
    assume "body prog = ss @ [SConst a x]
            \<and> execStmts ?ev h env [] ?st2 (concat (map (rewriteStmt ns) ss))
                 = Some (st3, Ok (locals, None))
            \<and> evalExpr ?ev h env locals st3 x = Some (st4, Ok v)
            \<and> lookupVar h env ((a, v) # locals) ''registerValue'' = Ok (HelperVal RegisterValue)"
    then show "evaluate (Suc n) h st ns prog e = Some (fst (registerValue st4 ns a v), Ok v)"
      using c2 [of ss a x st3 locals st4 v] by simp
  next
    fix ss sp sps st3 locals
    assume "body prog = ss @ [SExportSpecs (sp # sps)]
            \<and> execStmts ?ev h env [] ?st2
                 (concat (map (rewriteStmt ns) ss) @ rev (map (registerExportExpr ns) sps))
                 = Some (st3, Ok (locals, None))
            \<and> lookupVar h env locals ''registerValueExport'' = Ok (HelperVal RegisterValueExport)"
    then show "evaluate (Suc n) h st ns prog e
                 = Some (fst (registerValueExport st3 ns (fst sp) (Named (snd sp))),
                         Ok (Str (snd sp)))"
      using c3 [of ss sp sps st3 locals] by simp
  next
    fix st3 locals
    assume "execStmts ?ev h env [] ?st2 code = Some (st3, Ok (locals, None))"
    then show "evaluate (Suc n) h st ns prog e = Some (st3, Ok Undefined)" by (rule c4)
  next
    assume "body prog = []"
    then show "evaluate (Suc n) h st ns prog e = Some (?st2, Ok Undefined)" by (rule c5)
  qed
qed

text \<open>
  In a fresh namespace, \<^verbatim>\<open>1 + 2\<close> gives 3, \<^verbatim>\<open>const a = 5;\<close> gives 5,
  \<^verbatim>\<open>export { x as y }\<close> gives \<^verbatim>\<open>'y'\<close>, and the empty fragment gives
  \<^verbatim>\<open>undefined\<close>.
\<close>

theorem trailing_statement_value_witness:
  "map_option snd (evaluate (Suc 0) exampleHost emptyStore ''/tmp/a.js''
       (Program [] [SExpr (EAdd (ELit (Num 1)) (ELit (Num 2)))]) False) = Some (Ok (Num 3))
   \<and> map_option snd (evaluate (Suc 0) exampleHost emptyStore ''/tmp/a.js''
       (Program [] [SConst ''a'' (ELit (Num 5))]) False) = Some (Ok (Num 5))
   \<and> map_option snd (evaluate (Suc 0) exampleHost emptyStore ''/tmp/a.js''
       (Program [] [SExportSpecs [(''x'', ''y'')]]) False) = Some (Ok (Str ''y''))
   \<and> map_option snd (evaluate (Suc 0) exampleHost emptyStore ''/tmp/a.js''
       (Program [] []) False) = Some (Ok Undefined)"
proof -
  let ?ns = "''/tmp/a.js''"
  let ?st2 = "emptyStore\<lparr>moduleObjs := moduleObjs emptyStore @ [[(''exports'', ExportsStub ?ns)]]\<rparr>"
  let ?sum = "EAdd (ELit (Num 1)) (ELit (Num 2))"
  have p1: "parses (Program [] [SExpr ?sum])"
    by (simp add: parses_def boundNames_def exportedNames_def isReturn_def declaredNames_def)
  have p2: "parses (Program [] [SConst ''a'' (ELit (Num 5))])"
    by (simp add: parses_def boundNames_def exportedNames_def isReturn_def declaredNames_def)
  have p3: "parses (Program [] [SExportSpecs [(''x'', ''y'')]])"
    by (simp add: parses_def boundNames_def exportedNames_def isReturn_def declaredNames_def)
  have p4: "parses (Program [] [])"
    by (simp add: parses_def boundNames_def exportedNames_def declaredNames_def)
  note t1 = trailing_statement_value [OF transform_no_imports [OF p1] synthesizeScope_emptyStore,
      where n = 0 and h = exampleHost and ns = ?ns]
  note t2 = trailing_statement_value [OF transform_no_imports [OF p2] synthesizeScope_emptyStore,
      where n = 0 and h = exampleHost and ns = ?ns]
  note t3 = trailing_statement_value [OF transform_no_imports [OF p3] synthesizeScope_emptyStore,
      where n = 0 and h = exampleHost and ns = ?ns]
  note t4 = trailing_statement_value [OF transform_no_imports [OF p4] synthesizeScope_emptyStore,
      where n = 0 and h = exampleHost and ns = ?ns]
  have e1: "evaluate (Suc 0) exampleHost emptyStore ?ns (Program [] [SExpr ?sum]) False
              = Some (?st2, Ok (Num 3))"
    using t1 [THEN conjunct1, rule_format, where ss = "[]" and x = ?sum and ?st3.0 = ?st2
              and locals = "[]" and ?st4.0 = ?st2 and v = "Num 3"]
    by (simp add: addVals_def safeInt_def)
  have e2: "evaluate (Suc 0) exampleHost emptyStore ?ns (Program [] [SConst ''a'' (ELit (Num 5))]) False
              = Some (fst (registerValue ?st2 ?ns ''a'' (Num 5)), Ok (Num 5))"
    using t2 [THEN conjunct2, THEN conjunct1, rule_format, where ss = "[]" and a = "''a''"
              and x = "ELit (Num 5)" and ?st3.0 = ?st2 and locals = "[]" and ?st4.0 = ?st2
              and v = "Num 5"]
    by (simp add: lookupVar_def freshEnv_def declaredNames_def rewrite_def rewriteStmt_def
          trailingReturn_def registerValueExpr_def hasProperty_def objectPrototypeKeys_def
          contextLookup_def contextExtras_def)
  have e3: "evaluate (Suc 0) exampleHost emptyStore ?ns (Program [] [SExportSpecs [(''x'', ''y'')]]) False
              = Some (fst (registerValueExport ?st2 ?ns ''x'' (Named ''y'')), Ok (Str ''y''))"
    using t3 [THEN conjunct2, THEN conjunct2, THEN conjunct1, rule_format, where ss = "[]"
              and sp = "(''x'', ''y'')" and sps = "[]" and ?st3.0 = ?st2 and locals = "[]"]
    by (simp add: lookupVar_def freshEnv_def declaredNames_def rewrite_def rewriteStmt_def
          trailingReturn_def registerExportExpr_def hasProperty_def objectPrototypeKeys_def
          contextLookup_def contextExtras_def)
  have e4: "evaluate (Suc 0) exampleHost emptyStore ?ns (Program [] []) False
              = Some (?st2, Ok Undefined)"
    using t4 [THEN conjunct2, THEN conjunct2, THEN conjunct2, THEN conjunct1, rule_format,
              where ?st3.0 = ?st2 and locals = "[]"]
      t4 [THEN conjunct2, THEN conjunct2, THEN conjunct2, THEN conjunct2]
    by (simp add: rewrite_def trailingReturn_def)
  show ?thesis unfolding e1 e2 e3 e4 by simp
qed

text \<open>\<^verbatim>\<open>evaluate(ns, "const a = 5;")\<close> returns 5, not \<^verbatim>\<open>undefined\<close>.\<close>

theorem trailing_statement_value_counterexample:
  "map_option snd (evaluate (Suc 0) exampleHost emptyStore ''/tmp/a.js''
       (Program [] [SConst ''a'' (ELit (Num 5))]) False) = Some (Ok (Num 5))
   \<and> map_option (namespaces \<circ> fst) (evaluate (Suc 0) exampleHost emptyStore ''/tmp/a.js''
       (Program [] [SConst ''a'' (ELit (Num 5))]) False) = Some [(''/tmp/a.js'', [(''a'', Num 5)])]"
  by code_simp

subsection \<open>An exception thrown by the fragment\<close>

lemma catchHandler_host_console:
  assumes "lookupVar h (env\<lparr>envDeclared := []\<rparr>) [] ''console'' = Ok (HostVal ''console'')"
  shows "catchHandler ev h env st x = Some (st\<lparr>stderr := stderr st @ [x]\<rparr>, Ok Undefined)"
  using assms by (simp add: catchHandler_def getMember_def callVal_def)

text \<open>
  C9, as the code has it. When the code of the fragment throws \<open>x\<close>, the
  \<^verbatim>\<open>catch\<close> block of the wrapper calls \<^verbatim>\<open>console.error(x)\<close>; when the name
  \<^verbatim>\<open>console\<close> there is the host's console, \<open>x\<close> goes to standard error and
  \<^verbatim>\<open>evaluate\<close> returns \<^verbatim>\<open>undefined\<close>.
\<close>

theorem user_exception_is_caught:
  assumes "parses prog"
      and "processImports (evaluate n h) h st ns e (importDecls prog) = Some (st1, Ok u)"
      and "synthesizeScope h st1 ns e (rewrite ns (body prog)) = Ok env"
      and "\<not> list_ex isExportSpecs (rewrite ns (body prog))"
      and "execStmts (evaluate n h) h env []
             (st1\<lparr>moduleObjs := moduleObjs st1 @ [[(''exports'', ExportsStub ns)]]\<rparr>)
             (rewrite ns (body prog)) = Some (st3, Thrown x)"
      and "lookupVar h (env\<lparr>envDeclared := []\<rparr>) [] ''console'' = Ok (HostVal ''console'')"
  shows "evaluate (Suc n) h st ns prog e = Some (st3\<lparr>stderr := stderr st3 @ [x]\<rparr>, Ok Undefined)"
  using assms(1-5) catchHandler_host_console [OF assms(6), of "evaluate n h" st3 x]
  by (simp add: evaluateStep_def transform_def runInContext_def)

text \<open>\<^verbatim>\<open>throw 1\<close> in a fresh namespace: 1 is on standard error, the result is
  \<^verbatim>\<open>undefined\<close>.\<close>

theorem user_exception_is_caught_witness:
  "evaluate (Suc 0) exampleHost emptyStore ''/m/n.js'' (Program [] [SThrow (ELit (Num 1))]) False
     = Some (emptyStore\<lparr>moduleObjs := [[(''exports'', ExportsStub ''/m/n.js'')]], stderr := [Num 1]\<rparr>,
             Ok Undefined)"
proof -
  let ?prog = "Program [] [SThrow (ELit (Num 1))]"
  let ?ns = "''/m/n.js''"
  have p: "parses ?prog" by (simp add: parses_def boundNames_def exportedNames_def isReturn_def declaredNames_def)
  have rw: "rewrite ?ns (body ?prog) = [SThrow (ELit (Num 1))]"
    by (simp add: rewrite_def rewriteStmt_def trailingReturn_def)
  have i: "processImports (evaluate 0 exampleHost) exampleHost emptyStore ?ns False (importDecls ?prog)
             = Some (emptyStore, Ok ())"
    by simp
  have ex: "execStmts (evaluate 0 exampleHost) exampleHost (freshEnv ?ns (declaredNames (rewrite ?ns (body ?prog)))) []
             (emptyStore\<lparr>moduleObjs := moduleObjs emptyStore @ [[(''exports'', ExportsStub ?ns)]]\<rparr>)
             (rewrite ?ns (body ?prog))
           = Some (emptyStore\<lparr>moduleObjs := moduleObjs emptyStore @ [[(''exports'', ExportsStub ?ns)]]\<rparr>,
                   Thrown (Num 1))"
    unfolding rw by simp
  have c: "lookupVar exampleHost ((freshEnv ?ns (declaredNames (rewrite ?ns (body ?prog))))\<lparr>envDeclared := []\<rparr>) [] ''console''
             = Ok (HostVal ''console'')"
    by (simp add: lookupVar_def freshEnv_def hasProperty_def objectPrototypeKeys_def
          contextLookup_def contextExtras_def cjsStubs_def exampleHost_def)
  have ne: "\<not> list_ex isExportSpecs (rewrite ?ns (body ?prog))"
    unfolding rw by (simp add: isExportSpecs_def)
  show ?thesis
    using user_exception_is_caught [OF p i synthesizeScope_emptyStore ne ex c]
    by (simp add: emptyStore_def)
qed

text \<open>
  After \<^verbatim>\<open>const console = {}\<close> in the namespace, \<^verbatim>\<open>console\<close> in the
  \<^verbatim>\<open>catch\<close> block is that binding; for \<^verbatim>\<open>throw 1\<close> the call
  \<^verbatim>\<open>console.error(e)\<close> throws a \<^verbatim>\<open>TypeError\<close>, which leaves \<^verbatim>\<open>evaluate\<close>,
  and nothing is written to standard error.
\<close>

theorem user_exception_is_caught_counterexample:
  "map_option snd (evaluateAll (Suc 0) exampleHost emptyStore
     [(''/m/n.js'', Program [] [SConst ''console'' (ELit (Obj []))], False),
      (''/m/n.js'', Program [] [SThrow (ELit (Num 1))], False)])
   = Some [Ok (Obj []), Thrown (ErrorVal TypeError)]
   \<and> map_option (stderr \<circ> fst) (evaluateAll (Suc 0) exampleHost emptyStore
     [(''/m/n.js'', Program [] [SConst ''console'' (ELit (Obj []))], False),
      (''/m/n.js'', Program [] [SThrow (ELit (Num 1))], False)])
   = Some []"
  by code_simp

subsection \<open>Imports of built-in modules\<close>




lemma buildImports_other:
  assumes "buildImports h st ns imps acc = Ok scope" and "l \<notin> fst ` set imps"
  shows "map_of scope l = map_of acc l"
  using assms
proof (induction imps arbitrary: acc)
  case Nil
  then show ?case by simp
next
  case (Cons p imps)
  obtain l' imp where p: "p = (l', imp)" by (cases p)
  with Cons.prems obtain v where
    v: "importValue h st ns imp = Ok v"
    and r: "buildImports h st ns imps (AList.update l' v acc) = Ok scope"
    by (auto split: res.splits if_splits)
  have "l \<notin> fst ` set imps" and "l \<noteq> l'" using Cons.prems(2) p by auto
  with Cons.IH [OF r] show ?case by (simp add: update_conv')
qed

lemma buildImports_lookup:
  assumes "buildImports h st ns imps acc = Ok scope" and "map_of imps l = Some imp"
      and "distinct (map fst imps)"
  shows "\<exists>v. importValue h st ns imp = Ok v \<and> map_of scope l = Some v"
  using assms
proof (induction imps arbitrary: acc)
  case Nil
  then show ?case by simp
next
  case (Cons p imps)
  obtain l' imp' where p: "p = (l', imp')" by (cases p)
  with Cons.prems obtain v where
    v: "importValue h st ns imp' = Ok v"
    and r: "buildImports h st ns imps (AList.update l' v acc) = Ok scope"
    by (auto split: res.splits if_splits)
  show ?case
  proof (cases "l = l'")
    case True
    then have "imp = imp'" using Cons.prems(2) p by simp
    moreover have "l' \<notin> fst ` set imps" using Cons.prems(3) p by simp
    then have "map_of scope l' = Some v"
      using buildImports_other [OF r] by (simp add: update_conv')
    ultimately show ?thesis using v True by simp
  next
    case False
    then have "map_of imps l = Some imp" using Cons.prems(2) p by simp
    moreover have "distinct (map fst imps)" using Cons.prems(3) by simp
    ultimately show ?thesis using Cons.IH [OF r] by simp
  qed
qed

lemma synthesizeScope_imports:
  assumes "synthesizeScope h st ns e code = Ok env"
  shows "buildImports h st ns (getOrEmpty (valueImports st) ns) [] = Ok (nsImportsForScope env)"
  using assms by (auto simp: synthesizeScope_def Let_def split: res.splits option.splits)








subsection \<open>Resolving a named import of a user module\<close>

lemma importValue_user:
  assumes "\<not> isBuiltIn imp" and "imported imp \<noteq> NamespaceExport"
  shows "\<exists>v. importValue h st ns imp = Ok v"
  using assms by (auto simp: importValue_def split: option.splits)

lemma buildImports_user:
  assumes "\<forall>p \<in> set imps. \<not> isBuiltIn (snd p) \<and> imported (snd p) \<noteq> NamespaceExport
             \<and> fst p \<noteq> ''__proto__''"
  shows "\<exists>scope. buildImports h st ns imps acc = Ok scope"
  using assms
proof (induction imps arbitrary: acc)
  case Nil
  show ?case by simp
next
  case (Cons p imps)
  obtain l imp where p: "p = (l, imp)" by (cases p)
  from Cons.prems p obtain v where v: "importValue h st ns imp = Ok v"
    using importValue_user [of imp h st ns] by auto
  have l: "l \<noteq> ''__proto__''" using Cons.prems p by simp
  have "\<exists>scope. buildImports h st ns imps (AList.update l v acc) = Ok scope"
    using Cons.IH [of "AList.update l v acc"] Cons.prems by simp
  then show ?case using p v l by simp
qed

lemma importValue_named:
  assumes "\<not> isBuiltIn imp" and "imported imp = Named i"
  shows "importValue h st ns imp =
           Ok (case map_of (getOrEmpty (valueExports st) (importedNamespace imp)) (Named i) of
                 None \<Rightarrow> Undefined
               | Some e \<Rightarrow>
                   (case map_of (getOrEmpty (namespaces st) (importedNamespace imp)) (local e) of
                      None \<Rightarrow> Undefined
                    | Some v \<Rightarrow> v))"
  using assms by (auto simp: importValue_def getOrEmpty_def split: option.splits)

lemma lookupVar_import:
  assumes "map_of (nsImportsForScope env) l = Some w"
      and "l \<notin> set (envDeclared env)" and "l \<noteq> ''arguments''"
      and "\<not> hasProperty (nsForScope env) l"
  shows "lookupVar h env locals l = Ok w"
proof -
  have "hasProperty (nsImportsForScope env) l"
    using assms(1) by (auto simp: hasProperty_def dest: map_of_SomeD intro: rev_image_eqI)
  then show ?thesis using assms by (simp add: lookupVar_def getProperty_def)
qed

text \<open>
  C7. For a named import of a user module, scope synthesis looks the imported name up in
  the exports of the target namespace, then the local name of that export in the
  bindings of the target namespace; when either lookup finds nothing the value is
  \<^verbatim>\<open>undefined\<close>, and nothing is thrown. The loop over the imports of the namespace
  binds the local name of the import to that value in \<^verbatim>\<open>nsImportsForScope\<close>, and
  that is what the name stands for in the code, unless the code declares the name or the
  namespace has a binding of it. When all imports of the namespace are named or default
  imports of user modules, scope synthesis succeeds.
\<close>

theorem user_import_walk:
  assumes "\<not> isBuiltIn imp" and "imported imp = Named i"
  shows "\<exists>w. w = (case map_of (getOrEmpty (valueExports st) (importedNamespace imp)) (Named i) of
                    None \<Rightarrow> Undefined
                  | Some e \<Rightarrow>
                      (case map_of (getOrEmpty (namespaces st) (importedNamespace imp)) (local e) of
                         None \<Rightarrow> Undefined
                       | Some v \<Rightarrow> v))
           \<and> importValue h st ns imp = Ok w
           \<and> (\<forall>l imps acc scope.
                 buildImports h st ns imps acc = Ok scope \<and> map_of imps l = Some imp
                 \<and> distinct (map fst imps)
                 \<longrightarrow> map_of scope l = Some w)
           \<and> (\<forall>l e code env locals.
                 synthesizeScope h st ns e code = Ok env
                 \<and> distinct (map fst (getOrEmpty (valueImports st) ns))
                 \<and> map_of (getOrEmpty (valueImports st) ns) l = Some imp
                 \<longrightarrow> map_of (nsImportsForScope env) l = Some w
                   \<and> (l \<notin> set (declaredNames code) \<and> l \<noteq> ''arguments''
                      \<and> \<not> hasProperty (nsForScope env) l
                      \<longrightarrow> lookupVar h env locals l = Ok w))
           \<and> (\<forall>e code.
                 (\<forall>p \<in> set (getOrEmpty (valueImports st) ns).
                    \<not> isBuiltIn (snd p) \<and> imported (snd p) \<noteq> NamespaceExport
                    \<and> fst p \<noteq> ''__proto__'')
                 \<and> ''__proto__'' \<notin> fst ` set (getOrEmpty (namespaces st) ns)
                 \<longrightarrow> (\<exists>env. synthesizeScope h st ns e code = Ok env))"
proof -
  let ?w = "case map_of (getOrEmpty (valueExports st) (importedNamespace imp)) (Named i) of
              None \<Rightarrow> Undefined
            | Some e \<Rightarrow>
                (case map_of (getOrEmpty (namespaces st) (importedNamespace imp)) (local e) of
                   None \<Rightarrow> Undefined
                 | Some v \<Rightarrow> v)"
  have iv: "importValue h st ns imp = Ok ?w" by (rule importValue_named [OF assms])
  have bi: "map_of scope l = Some ?w"
    if "buildImports h st ns imps acc = Ok scope" and "map_of imps l = Some imp"
      and "distinct (map fst imps)" for l imps acc scope
    using buildImports_lookup [OF that] iv by simp
  have sc: "map_of (nsImportsForScope env) l = Some ?w
            \<and> (l \<notin> set (declaredNames code) \<and> l \<noteq> ''arguments''
               \<and> \<not> hasProperty (nsForScope env) l
               \<longrightarrow> lookupVar h env locals l = Ok ?w)"
    if s: "synthesizeScope h st ns e code = Ok env"
      and d: "distinct (map fst (getOrEmpty (valueImports st) ns))"
      and m: "map_of (getOrEmpty (valueImports st) ns) l = Some imp" for l e code env locals
  proof -
    have b: "map_of (nsImportsForScope env) l = Some ?w"
      by (rule bi [OF synthesizeScope_imports [OF s] m d])
    show ?thesis
      using b lookupVar_import [OF b, of h locals] synthesizeScope_fields(4) [OF s] by simp
  qed
  have tot: "\<exists>env. synthesizeScope h st ns e code = Ok env"
    if u: "\<forall>p \<in> set (getOrEmpty (valueImports st) ns).
             \<not> isBuiltIn (snd p) \<and> imported (snd p) \<noteq> NamespaceExport \<and> fst p \<noteq> ''__proto__''"
      and k: "''__proto__'' \<notin> fst ` set (getOrEmpty (namespaces st) ns)" for e code
  proof -
    from buildImports_user [OF u, of h st ns "[]"] obtain scope where
      "buildImports h st ns (getOrEmpty (valueImports st) ns) [] = Ok scope" by blast
    then show ?thesis using k by (simp add: synthesizeScope_def fromPairs_def)
  qed
  have c2: "\<forall>l imps acc scope.
                 buildImports h st ns imps acc = Ok scope \<and> map_of imps l = Some imp
                 \<and> distinct (map fst imps)
                 \<longrightarrow> map_of scope l = Some ?w"
    using bi by blast
  have c3: "\<forall>l e code env locals.
                 synthesizeScope h st ns e code = Ok env
                 \<and> distinct (map fst (getOrEmpty (valueImports st) ns))
                 \<and> map_of (getOrEmpty (valueImports st) ns) l = Some imp
                 \<longrightarrow> map_of (nsImportsForScope env) l = Some ?w
                   \<and> (l \<notin> set (declaredNames code) \<and> l \<noteq> ''arguments''
                      \<and> \<not> hasProperty (nsForScope env) l
                      \<longrightarrow> lookupVar h env locals l = Ok ?w)"
    using sc by blast
  have c4: "\<forall>e code.
                 (\<forall>p \<in> set (getOrEmpty (valueImports st) ns).
                    \<not> isBuiltIn (snd p) \<and> imported (snd p) \<noteq> NamespaceExport
                    \<and> fst p \<noteq> ''__proto__'')
                 \<and> ''__proto__'' \<notin> fst ` set (getOrEmpty (namespaces st) ns)
                 \<longrightarrow> (\<exists>env. synthesizeScope h st ns e code = Ok env)"
    using tot by blast
  show ?thesis by (rule exI [of _ ?w]) (intro conjI refl iv c2 c3 c4)
qed

lemma importStore_simps:
  "valueImports importStore =
     [(''/m/d.js'', [(''y'', Import ''/m/c.js'' (Named ''x'') ''y'' False),
                    (''a'', Import ''/m/c.js'' (Named ''a'') ''a'' False)])]"
  "namespaces importStore = [(''/m/c.js'', [(''a'', Num 42)])]"
  "valueExports importStore = [(''/m/c.js'', [(Named ''x'', Export (Named ''x'') ''a'')])]"
  "moduleObjs importStore = []"
  by (simp_all add: importStore_def registerValueImport_def normalizeImportPath_def
        exampleHost_def exampleResolve_def exampleStore_simps getOrEmpty_def specLocal_def
        specImported_def)

text \<open>
  In \<^verbatim>\<open>/m/d.js\<close> of the example, \<^verbatim>\<open>y\<close> is bound to 42, the value of the binding
  \<^verbatim>\<open>a\<close> that \<^verbatim>\<open>/m/c.js\<close> exports as \<^verbatim>\<open>x\<close>, and \<^verbatim>\<open>a\<close> is bound to
  \<^verbatim>\<open>undefined\<close>, \<^verbatim>\<open>/m/c.js\<close> having no export of that name.
\<close>

theorem user_import_walk_witness:
  "importValue exampleHost importStore ''/m/d.js'' (Import ''/m/c.js'' (Named ''x'') ''y'' False)
     = Ok (Num 42)
   \<and> synthesizeScope exampleHost importStore ''/m/d.js'' False [SReturn (EVar ''y'')] = Ok importEnv
   \<and> map_of (nsImportsForScope importEnv) ''y'' = Some (Num 42)
   \<and> lookupVar exampleHost importEnv [] ''y'' = Ok (Num 42)
   \<and> map_of (nsImportsForScope importEnv) ''a'' = Some Undefined
   \<and> lookupVar exampleHost importEnv [] ''a'' = Ok Undefined"
proof -
  let ?y = "Import ''/m/c.js'' (Named ''x'') ''y'' False"
  let ?a = "Import ''/m/c.js'' (Named ''a'') ''a'' False"
  let ?code = "[SReturn (EVar ''y'')]"
  have y1: "\<not> isBuiltIn ?y" and y2: "imported ?y = Named ''x''" by simp_all
  have a1: "\<not> isBuiltIn ?a" and a2: "imported ?a = Named ''a''" by simp_all
  have u: "\<forall>p \<in> set (getOrEmpty (valueImports importStore) ''/m/d.js'').
             \<not> isBuiltIn (snd p) \<and> imported (snd p) \<noteq> NamespaceExport \<and> fst p \<noteq> ''__proto__''"
    by (simp add: importStore_simps getOrEmpty_def)
  have k: "''__proto__'' \<notin> fst ` set (getOrEmpty (namespaces importStore) ''/m/d.js'')"
    by (simp add: importStore_simps getOrEmpty_def)
  have d: "distinct (map fst (getOrEmpty (valueImports importStore) ''/m/d.js''))"
    by (simp add: importStore_simps getOrEmpty_def)
  have my: "map_of (getOrEmpty (valueImports importStore) ''/m/d.js'') ''y'' = Some ?y"
    by (simp add: importStore_simps getOrEmpty_def)
  have ma: "map_of (getOrEmpty (valueImports importStore) ''/m/d.js'') ''a'' = Some ?a"
    by (simp add: importStore_simps getOrEmpty_def)
  have nf: "\<not> hasProperty (nsForScope importEnv) ''y''" "\<not> hasProperty (nsForScope importEnv) ''a''"
    by (simp_all add: importEnv_def hasProperty_def objectPrototypeKeys_def)
  have dn: "''y'' \<notin> set (declaredNames ?code)" "''a'' \<notin> set (declaredNames ?code)"
    by (simp_all add: declaredNames_def)
  from user_import_walk [OF y1 y2, of importStore exampleHost "''/m/d.js''"]
  obtain w where w: "w = (case map_of (getOrEmpty (valueExports importStore) (importedNamespace ?y))
                             (Named ''x'') of
                    None \<Rightarrow> Undefined
                  | Some e \<Rightarrow>
                      (case map_of (getOrEmpty (namespaces importStore) (importedNamespace ?y)) (local e) of
                         None \<Rightarrow> Undefined
                       | Some v \<Rightarrow> v))"
    and iv: "importValue exampleHost importStore ''/m/d.js'' ?y = Ok w"
    and c3: "\<forall>l e code env locals.
                 synthesizeScope exampleHost importStore ''/m/d.js'' e code = Ok env
                 \<and> distinct (map fst (getOrEmpty (valueImports importStore) ''/m/d.js''))
                 \<and> map_of (getOrEmpty (valueImports importStore) ''/m/d.js'') l = Some ?y
                 \<longrightarrow> map_of (nsImportsForScope env) l = Some w
                   \<and> (l \<notin> set (declaredNames code) \<and> l \<noteq> ''arguments''
                      \<and> \<not> hasProperty (nsForScope env) l
                      \<longrightarrow> lookupVar exampleHost env locals l = Ok w)"
    and c4: "\<forall>e code.
                 (\<forall>p \<in> set (getOrEmpty (valueImports importStore) ''/m/d.js'').
                    \<not> isBuiltIn (snd p) \<and> imported (snd p) \<noteq> NamespaceExport
                    \<and> fst p \<noteq> ''__proto__'')
                 \<and> ''__proto__'' \<notin> fst ` set (getOrEmpty (namespaces importStore) ''/m/d.js'')
                 \<longrightarrow> (\<exists>env. synthesizeScope exampleHost importStore ''/m/d.js'' e code = Ok env)"
    by (elim exE conjE)
  have w42: "w = Num 42" using w by (simp add: importStore_simps getOrEmpty_def)
  from c4 [rule_format, of False ?code] u k obtain env where
    s: "synthesizeScope exampleHost importStore ''/m/d.js'' False ?code = Ok env"
    by blast
  have env: "env = importEnv"
    using s
    by (simp add: synthesizeScope_def importStore_simps getOrEmpty_def importValue_def
          fromPairs_def importEnv_def declaredNames_def)
  have s': "synthesizeScope exampleHost importStore ''/m/d.js'' False ?code = Ok importEnv"
    using s env by simp
  have y: "map_of (nsImportsForScope importEnv) ''y'' = Some (Num 42)
           \<and> lookupVar exampleHost importEnv [] ''y'' = Ok (Num 42)"
    using c3 [rule_format, of False ?code importEnv "''y''" "[]"] s' d my nf(1) dn(1) w42 by simp
  from user_import_walk [OF a1 a2, of importStore exampleHost "''/m/d.js''"]
  obtain w' where w': "w' = (case map_of (getOrEmpty (valueExports importStore) (importedNamespace ?a))
                             (Named ''a'') of
                    None \<Rightarrow> Undefined
                  | Some e \<Rightarrow>
                      (case map_of (getOrEmpty (namespaces importStore) (importedNamespace ?a)) (local e) of
                         None \<Rightarrow> Undefined
                       | Some v \<Rightarrow> v))"
    and c3': "\<forall>l e code env locals.
                 synthesizeScope exampleHost importStore ''/m/d.js'' e code = Ok env
                 \<and> distinct (map fst (getOrEmpty (valueImports importStore) ''/m/d.js''))
                 \<and> map_of (getOrEmpty (valueImports importStore) ''/m/d.js'') l = Some ?a
                 \<longrightarrow> map_of (nsImportsForScope env) l = Some w'
                   \<and> (l \<notin> set (declaredNames code) \<and> l \<noteq> ''arguments''
                      \<and> \<not> hasProperty (nsForScope env) l
                      \<longrightarrow> lookupVar exampleHost env locals l = Ok w')"
    by (elim exE conjE)
  have wu: "w' = Undefined" using w' by (simp add: importStore_simps getOrEmpty_def)
  have a: "map_of (nsImportsForScope importEnv) ''a'' = Some Undefined
           \<and> lookupVar exampleHost importEnv [] ''a'' = Ok Undefined"
    using c3' [rule_format, of False ?code importEnv "''a''" "[]"] s' d ma nf(2) dn(2) wu by simp
  show ?thesis using iv w42 s' y a by simp
qed

subsection \<open>Import cycles terminate\<close>





lemma tidy_stderr [simp]: "tidy (st\<lparr>stderr := x\<rparr>) = tidy st"
  by (simp add: tidy_def)

lemma marked_stderr [simp]: "marked (st\<lparr>stderr := x\<rparr>) = marked st"
  by (simp add: marked_def)

lemma tidy_moduleObjs [simp]: "tidy (st\<lparr>moduleObjs := x\<rparr>) = tidy st"
  by (simp add: tidy_def)

lemma marked_moduleObjs [simp]: "marked (st\<lparr>moduleObjs := x\<rparr>) = marked st"
  by (simp add: marked_def)


































end
